theory Spec2Isabelle
  imports Complex_Main "HOL-Library.Option_ord" "HOL-Library.Multiset"
begin

section \<open>Values, documents and identifiers\<close>

text \<open>
  The service of \<^verbatim>\<open>main.py\<close> keeps all of its state in five collections of a document
  database. A document is a Python dict; it is modelled as an association list (keys in
  insertion order, no key twice), a collection as the list of its documents in insertion
  order.

  An \<^verbatim>\<open>ObjectId\<close> holds bytes, twelve when the driver generates it. It is represented by
  the text that \<^verbatim>\<open>str\<close> prints, two lower-case hexadecimal digits for each byte.
\<close>

datatype oid = OID string

datatype val =
    Null
  | Str string
  | IntV int
  | FloatV real
  | Bool bool
  | StrList "string list"
  | Oid oid
  | Datetime nat
  | IsoFormat nat

type_synonym doc = "(string \<times> val) list"

datatype error =
    HTTPException nat string
  | InvalidId string
  | ValidationError string
  | ValueError
  | OverflowError

text \<open>\<^verbatim>\<open>d[k] = v\<close> and \<^verbatim>\<open>d.pop(k)\<close> on a dict.\<close>

primrec dict_set :: "string \<Rightarrow> val \<Rightarrow> doc \<Rightarrow> doc" where
  "dict_set k v [] = [(k, v)]"
| "dict_set k v (p # ps) = (if fst p = k then (k, v) # ps else p # dict_set k v ps)"

definition dict_pop :: "string \<Rightarrow> doc \<Rightarrow> doc" where
  "dict_pop k d = filter (\<lambda>p. fst p \<noteq> k) d"

text \<open>Truth value of a Python object, for the values a document holds.\<close>

fun truthy_val :: "val \<Rightarrow> bool" where
  "truthy_val Null = False"
| "truthy_val (Str s) = (s \<noteq> [])"
| "truthy_val (IntV i) = (i \<noteq> 0)"
| "truthy_val (FloatV r) = (r \<noteq> 0)"
| "truthy_val (Bool b) = b"
| "truthy_val (StrList l) = (l \<noteq> [])"
| "truthy_val (Oid i) = True"
| "truthy_val (Datetime t) = True"
| "truthy_val (IsoFormat t) = True"

text \<open>\<^verbatim>\<open>if doc:\<close> on the result of a lookup: \<^verbatim>\<open>None\<close> and the empty dict are false.\<close>

fun truthy_doc :: "doc option \<Rightarrow> bool" where
  "truthy_doc None = False"
| "truthy_doc (Some d) = (d \<noteq> [])"

subsection \<open>Decimal and hexadecimal text\<close>

definition digit_char :: "nat \<Rightarrow> char" where
  "digit_char k = ''0123456789'' ! (k mod 10)"

function str_nat :: "nat \<Rightarrow> string" where
  "str_nat n = (if n < 10 then [digit_char n] else str_nat (n div 10) @ [digit_char (n mod 10)])"
  by pat_completeness auto
termination
  by (relation "measure (\<lambda>n. n)") auto

declare str_nat.simps [simp del]

text \<open>\<^verbatim>\<open>str(i)\<close>, also what an f-string prints for an int.\<close>

definition str_int :: "int \<Rightarrow> string" where
  "str_int i = (if i < 0 then CHR ''-'' # str_nat (nat (- i)) else str_nat (nat i))"

definition is_digit :: "char \<Rightarrow> bool" where
  "is_digit c = (c \<in> set ''0123456789'')"

definition hex_digit :: "nat \<Rightarrow> char" where
  "hex_digit k = ''0123456789abcdef'' ! (k mod 16)"

definition hex_val :: "char \<Rightarrow> nat option" where
  "hex_val c = map_of (zip ''0123456789abcdefABCDEF''
       [0, 1, 2, 3, 4, 5, 6, 7, 8, 9, 10, 11, 12, 13, 14, 15, 10, 11, 12, 13, 14, 15]) c"

text \<open>
  \<^verbatim>\<open>bytes.fromhex(s)\<close>: two hexadecimal digits for each byte, ASCII whitespace skipped in
  front of a byte and at the end, \<^verbatim>\<open>ValueError\<close> (here \<open>None\<close>) for anything else, also for
  whitespace between the two digits of a byte. The bytes are kept as their lower-case
  digits.
\<close>

definition is_space :: "char \<Rightarrow> bool" where
  "is_space c = (c \<in> set [CHR '' '', CHR 0x09, CHR 0x0A, CHR 0x0B, CHR 0x0C, CHR 0x0D])"

fun fromhex :: "string \<Rightarrow> string option" where
  "fromhex [] = Some []"
| "fromhex [c] = (if is_space c then Some [] else None)"
| "fromhex (c # c' # cs) =
     (if is_space c then fromhex (c' # cs)
      else case hex_val c of
             None \<Rightarrow> None
           | Some a \<Rightarrow>
               (case hex_val c' of
                  None \<Rightarrow> None
                | Some b \<Rightarrow>
                    (case fromhex cs of
                       None \<Rightarrow> None
                     | Some h \<Rightarrow> Some (hex_digit a # hex_digit b # h))))"

text \<open>
  \<^verbatim>\<open>ObjectId(s)\<close> for a string, as \<^verbatim>\<open>bson\<close> does it: a string of 24 characters is handed to
  \<^verbatim>\<open>bytes.fromhex\<close> and whatever bytes that gives are the identifier; a string of another
  length, or one that \<^verbatim>\<open>bytes.fromhex\<close> refuses, raises \<^verbatim>\<open>InvalidId\<close>. No handler of
  \<^verbatim>\<open>main.py\<close> catches the exception, so the error \<open>InvalidId\<close> of the model stands for a
  server error (status 500).
\<close>

definition ObjectId :: "string \<Rightarrow> error + oid" where
  "ObjectId s =
     (if length s = 24
      then (case fromhex s of
              Some h \<Rightarrow> Inr (OID h)
            | None \<Rightarrow> Inl (InvalidId s))
      else Inl (InvalidId s))"

fun str_oid :: "oid \<Rightarrow> string" where
  "str_oid (OID h) = h"

text \<open>The identifier the driver generates for the \<open>n\<close>-th insert.\<close>

definition oid_of_nat :: "nat \<Rightarrow> oid" where
  "oid_of_nat n = OID (map (\<lambda>i. hex_digit (n div 16 ^ i)) (rev [0..<24]))"

text \<open>
  \<^verbatim>\<open>str(v)\<close> of what \<^verbatim>\<open>d.get(k)\<close> returns. The text of a float, a list or a datetime is
  not modelled: no handler prints one.
\<close>

fun str_val :: "val option \<Rightarrow> string" where
  "str_val None = ''None''"
| "str_val (Some Null) = ''None''"
| "str_val (Some (Str s)) = s"
| "str_val (Some (IntV i)) = str_int i"
| "str_val (Some (Bool b)) = (if b then ''True'' else ''False'')"
| "str_val (Some (Oid i)) = str_oid i"
| "str_val (Some (IsoFormat t)) = undefined"
| "str_val (Some (Datetime t)) = undefined"
| "str_val (Some (FloatV r)) = undefined"
| "str_val (Some (StrList l)) = undefined"

section \<open>The document store\<close>

text \<open>
  \<open>db s c\<close> is the collection named \<open>c\<close>. \<open>next_id\<close> counts the identifiers handed out
  and \<open>clock\<close> is the time the next insert is stamped with.
\<close>

record store =
  db :: "string \<Rightarrow> doc list"
  next_id :: nat
  clock :: nat

text \<open>
  The query documents \<^verbatim>\<open>main.py\<close> builds: \<^verbatim>\<open>{k: v}\<close>, \<^verbatim>\<open>{k: {"$ne": v}}\<close>, several keys in
  one dict (all must hold) and \<^verbatim>\<open>{"$or": [...]}\<close>. The values compared are strings and
  identifiers, for which the database's equality is plain equality.
\<close>

datatype query =
    Eq string val
  | Ne string val
  | All "query list"
  | Or "query list"

fun matches :: "query \<Rightarrow> doc \<Rightarrow> bool" where
  "matches (Eq k v) d = (map_of d k = Some v)"
| "matches (Ne k v) d = (map_of d k \<noteq> Some v)"
| "matches (All qs) d = list_all (\<lambda>q. matches q d) qs"
| "matches (Or qs) d = list_ex (\<lambda>q. matches q d) qs"

text \<open>\<^verbatim>\<open>db[c].find(q)\<close> yields the matching documents in the collection's order.\<close>

definition find_docs :: "store \<Rightarrow> string \<Rightarrow> query \<Rightarrow> doc list" where
  "find_docs s c q = filter (matches q) (db s c)"

definition find_one :: "store \<Rightarrow> string \<Rightarrow> query \<Rightarrow> doc option" where
  "find_one s c q = find (matches q) (db s c)"

text \<open>
  The key of \<^verbatim>\<open>.sort("created_at", -1)\<close>. A document without the field sorts as the
  lowest value, which is \<open>None\<close> in the order on \<open>nat option\<close>.
\<close>

definition created_at :: "doc \<Rightarrow> nat option" where
  "created_at d = (case map_of d ''created_at'' of Some (Datetime t) \<Rightarrow> Some t | _ \<Rightarrow> None)"

text \<open>
  Newest first. Among documents with the same timestamp the later one of the collection
  comes first.
\<close>

definition sort_desc :: "doc list \<Rightarrow> doc list" where
  "sort_desc ds = rev (sort_key created_at ds)"

text \<open>
  \<^verbatim>\<open>cursor.limit(n)\<close> of the driver: a limit of 0 is no limit, and a negative limit asks
  for one batch of \<open>|n|\<close> documents.
\<close>

definition limit_docs :: "int \<Rightarrow> doc list \<Rightarrow> doc list" where
  "limit_docs n ds = (if n = 0 then ds else take (nat \<bar>n\<bar>) ds)"

text \<open>\<^verbatim>\<open>next(cursor, None)\<close>.\<close>

fun next_doc :: "doc list \<Rightarrow> doc option" where
  "next_doc [] = None"
| "next_doc (d # ds) = Some d"

text \<open>\<^verbatim>\<open>update_one(q, {"$set": upd})\<close> writes the fields of \<open>upd\<close> into the first match.\<close>

definition set_fields :: "doc \<Rightarrow> doc \<Rightarrow> doc" where
  "set_fields upd d = fold (\<lambda>(k, v). dict_set k v) upd d"

fun update_first :: "(doc \<Rightarrow> bool) \<Rightarrow> (doc \<Rightarrow> doc) \<Rightarrow> doc list \<Rightarrow> doc list" where
  "update_first P f [] = []"
| "update_first P f (d # ds) = (if P d then f d # ds else d # update_first P f ds)"

text \<open>
  The driver encodes a command as BSON before it sends it. An integer that does not fit a
  signed integer of 8 bytes makes the encoder raise \<^verbatim>\<open>OverflowError\<close>; nothing has been
  sent then. Strings, lists of strings and floats are always encoded.
\<close>

fun encodable :: "val \<Rightarrow> bool" where
  "encodable (IntV i) = (- (2 ^ 63) \<le> i \<and> i < 2 ^ 63)"
| "encodable v = True"

definition update_one :: "store \<Rightarrow> string \<Rightarrow> query \<Rightarrow> doc \<Rightarrow> error + store" where
  "update_one s c q upd =
     (if \<not> list_all (\<lambda>(k, v). encodable v) upd then Inl OverflowError
      else Inr (s\<lparr>db := (db s)(c := update_first (matches q) (set_fields upd) (db s c))\<rparr>))"

text \<open>
  Modelled from the spec: \<^verbatim>\<open>create_document\<close> of the module \<^verbatim>\<open>database\<close>, which is
  imported by \<^verbatim>\<open>main.py\<close> and is not among the sources. The specification says that every
  document gets "a generated unique identifier and an insertion timestamp assigned by the
  store", and that the bound on a message's text (1 to 2000 characters, the bound of the
  schema \<^verbatim>\<open>Message\<close> in \<^verbatim>\<open>schemas.py\<close>) is a "store-level constraint: reject empty or
  oversized text with a validation error". The callers use the result as the text of the
  new identifier.
\<close>

definition schema_ok :: "string \<Rightarrow> doc \<Rightarrow> bool" where
  "schema_ok c d =
     (if c = ''message''
      then (case map_of d ''text'' of
              Some (Str t) \<Rightarrow> 1 \<le> length t \<and> length t \<le> 2000
            | _ \<Rightarrow> False)
      else True)"

definition create_document :: "store \<Rightarrow> string \<Rightarrow> doc \<Rightarrow> (error + string) \<times> store" where
  "create_document s c data =
     (if \<not> schema_ok c data then (Inl (ValidationError c), s)
      else
        let i = oid_of_nat (next_id s);
            d = dict_set ''_id'' (Oid i) (dict_set ''created_at'' (Datetime (clock s)) data)
        in (Inr (str_oid i),
            s\<lparr>db := (db s)(c := db s c @ [d]),
              next_id := Suc (next_id s),
              clock := Suc (clock s)\<rparr>))"

section \<open>The handlers of \<^verbatim>\<open>main.py\<close>\<close>

text \<open>
  \<^verbatim>\<open>to_doc\<close>: the identifier moves from \<^verbatim>\<open>_id\<close> to the text field \<^verbatim>\<open>id\<close>, and every
  datetime is replaced by its ISO text (kept symbolic as \<open>IsoFormat t\<close>).
\<close>

definition to_doc :: "doc option \<Rightarrow> doc option" where
  "to_doc d0 =
     (if \<not> truthy_doc d0 then d0
      else
        let d = the d0;
            d1 = (case map_of d ''_id'' of
                    None \<Rightarrow> d
                  | Some v \<Rightarrow>
                      if truthy_val v then dict_set ''id'' (Str (str_val (Some v))) (dict_pop ''_id'' d)
                      else d)
        in Some (map (\<lambda>(k, v). (k, case v of Datetime t \<Rightarrow> IsoFormat t | _ \<Rightarrow> v)) d1))"

text \<open>
  The request bodies \<^verbatim>\<open>RequestOTP\<close>, \<^verbatim>\<open>VerifyOTP\<close>, \<^verbatim>\<open>SwipeIn\<close> and \<^verbatim>\<open>MessageIn\<close> are passed
  as their fields. A handler that writes returns the store it leaves behind, also when it
  raises.
\<close>

subsection \<open>Authentication\<close>

text \<open>
  \<^verbatim>\<open>random.randint(a, b)\<close> raises \<^verbatim>\<open>ValueError\<close> when \<open>b < a\<close>; otherwise it returns \<open>a + k\<close>
  for a number \<open>k\<close> below \<open>b - a + 1\<close>, each of these being equally likely. \<open>u\<close> is the
  number the generator draws; \<open>k\<close> is what is left of it below \<open>b - a + 1\<close>.
\<close>

definition randint :: "int \<Rightarrow> int \<Rightarrow> nat \<Rightarrow> error + int" where
  "randint a b u = (if b < a then Inl ValueError else Inr (a + int (u mod nat (b - a + 1))))"

definition request_otp :: "store \<Rightarrow> nat \<Rightarrow> string \<Rightarrow> (error + doc) \<times> store" where
  "request_otp s u email =
     (case randint 100000 999999 u of
        Inl e \<Rightarrow> (Inl e, s)
      | Inr r \<Rightarrow>
          let code = str_int r in
          case create_document s ''otp'' [(''email'', Str email), (''code'', Str code)] of
            (Inl e, s') \<Rightarrow> (Inl e, s')
          | (Inr _, s') \<Rightarrow> (Inr [(''sent'', Bool True), (''code'', Str code)], s'))"

text \<open>\<^verbatim>\<open>email.split("@")[0]\<close>: the text before the first \<^verbatim>\<open>@\<close>, all of it when there is none.\<close>

definition local_part :: "string \<Rightarrow> string" where
  "local_part email = takeWhile (\<lambda>c. c \<noteq> CHR ''@'') email"

definition verify_otp :: "store \<Rightarrow> string \<Rightarrow> string \<Rightarrow> (error + doc) \<times> store" where
  "verify_otp s email code =
     (let docs = limit_docs 1 (sort_desc (find_docs s ''otp'' (Eq ''email'' (Str email))));
          doc = next_doc docs
      in if (case doc of None \<Rightarrow> True
             | Some d \<Rightarrow> d = [] \<or> map_of d ''code'' \<noteq> Some (Str code))
         then (Inl (HTTPException 400 ''Invalid code''), s)
         else
           let existing = find_one s ''profile'' (Eq ''email'' (Str email))
           in if \<not> truthy_doc existing
              then (case create_document s ''profile''
                           [(''email'', Str email), (''name'', Str (local_part email))] of
                      (Inl e, s') \<Rightarrow> (Inl e, s')
                    | (Inr pid, s') \<Rightarrow>
                        (Inr [(''ok'', Bool True), (''profile_id'', Str pid)], s'))
              else (Inr [(''ok'', Bool True),
                         (''profile_id'', Str (str_val (map_of (the existing) ''_id'')))], s))"

subsection \<open>Profiles\<close>

text \<open>
  \<^verbatim>\<open>ProfileUpdate\<close>: every field is optional. \<open>None\<close> is a field the request did not
  set, \<open>Some None\<close> a field set to \<^verbatim>\<open>null\<close>, \<open>Some (Some x)\<close> a field set to \<open>x\<close>.
\<close>

record ProfileUpdate =
  name :: "string option option"
  age :: "int option option"
  gender :: "string option option"
  bio :: "string option option"
  interests :: "string list option option"
  photos :: "string list option option"
  location_lat :: "real option option"
  location_lng :: "real option option"

definition dump_field :: "string \<Rightarrow> ('a \<Rightarrow> val) \<Rightarrow> 'a option option \<Rightarrow> doc" where
  "dump_field k conv f =
     (case f of None \<Rightarrow> []
      | Some None \<Rightarrow> [(k, Null)]
      | Some (Some x) \<Rightarrow> [(k, conv x)])"

text \<open>\<^verbatim>\<open>payload.model_dump(exclude_unset=True)\<close>: the fields that were set, in declaration order.\<close>

definition model_dump :: "ProfileUpdate \<Rightarrow> doc" where
  "model_dump p =
     dump_field ''name'' Str (name p) @
     dump_field ''age'' IntV (age p) @
     dump_field ''gender'' Str (gender p) @
     dump_field ''bio'' Str (bio p) @
     dump_field ''interests'' StrList (interests p) @
     dump_field ''photos'' StrList (photos p) @
     dump_field ''location_lat'' FloatV (location_lat p) @
     dump_field ''location_lng'' FloatV (location_lng p)"

definition get_me :: "store \<Rightarrow> string \<Rightarrow> error + doc option" where
  "get_me s profile_id =
     (case ObjectId profile_id of
        Inl e \<Rightarrow> Inl e
      | Inr i \<Rightarrow>
          let doc = find_one s ''profile'' (Eq ''_id'' (Oid i))
          in if \<not> truthy_doc doc then Inl (HTTPException 404 ''Profile not found'')
             else Inr (to_doc doc))"

definition update_me :: "store \<Rightarrow> string \<Rightarrow> ProfileUpdate \<Rightarrow> (error + doc option) \<times> store" where
  "update_me s profile_id payload =
     (let update = model_dump payload in
      if update = [] then (Inr (Some [(''updated'', Bool False)]), s)
      else
        case ObjectId profile_id of
          Inl e \<Rightarrow> (Inl e, s)
        | Inr i \<Rightarrow>
            (case update_one s ''profile'' (Eq ''_id'' (Oid i)) update of
               Inl e \<Rightarrow> (Inl e, s)
             | Inr s' \<Rightarrow> (Inr (to_doc (find_one s' ''profile'' (Eq ''_id'' (Oid i)))), s')))"

subsection \<open>Discovery\<close>

text \<open>
  A query parameter with a default (\<^verbatim>\<open>limit: int = 10\<close>) is an \<open>int option\<close>: \<open>None\<close> when the
  request leaves it out.
\<close>

definition discover :: "store \<Rightarrow> string \<Rightarrow> int option \<Rightarrow> error + doc option list" where
  "discover s profile_id limit =
     (case ObjectId profile_id of
        Inl e \<Rightarrow> Inl e
      | Inr i \<Rightarrow>
          Inr (map (\<lambda>d. to_doc (Some d))
                 (limit_docs (case limit of None \<Rightarrow> 10 | Some n \<Rightarrow> n)
                    (find_docs s ''profile'' (Ne ''_id'' (Oid i))))))"

subsection \<open>Swipes and matching\<close>

definition swipe_response :: "bool \<Rightarrow> string option \<Rightarrow> doc" where
  "swipe_response is_match match_id =
     [(''ok'', Bool True), (''match'', Bool is_match),
      (''match_id'', case match_id of None \<Rightarrow> Null | Some m \<Rightarrow> Str m)]"

definition swipe :: "store \<Rightarrow> string \<Rightarrow> string \<Rightarrow> string \<Rightarrow> (error + doc) \<times> store" where
  "swipe s profile_id target_id action =
     (if action \<notin> set [''like'', ''pass'']
      then (Inl (HTTPException 400 ''Invalid action''), s)
      else
        case create_document s ''swipe''
               [(''user_id'', Str profile_id), (''target_id'', Str target_id),
                (''action'', Str action)] of
          (Inl e, s1) \<Rightarrow> (Inl e, s1)
        | (Inr _, s1) \<Rightarrow>
            if action = ''like'' then
              let liked_me = find_one s1 ''swipe''
                    (All [Eq ''user_id'' (Str target_id), Eq ''target_id'' (Str profile_id),
                          Eq ''action'' (Str ''like'')])
              in if truthy_doc liked_me then
                   let existing = find_one s1 ''match''
                         (Or [All [Eq ''user_a'' (Str profile_id), Eq ''user_b'' (Str target_id)],
                              All [Eq ''user_a'' (Str target_id), Eq ''user_b'' (Str profile_id)]])
                   in if \<not> truthy_doc existing then
                        (case create_document s1 ''match''
                                [(''user_a'', Str profile_id), (''user_b'', Str target_id)] of
                           (Inl e, s2) \<Rightarrow> (Inl e, s2)
                         | (Inr match_id, s2) \<Rightarrow> (Inr (swipe_response True (Some match_id)), s2))
                      else
                        (Inr (swipe_response True
                                (Some (str_val (map_of (the existing) ''_id'')))), s1)
                 else (Inr (swipe_response False None), s1)
            else (Inr (swipe_response False None), s1))"

subsection \<open>Messages\<close>


definition send_message :: "store \<Rightarrow> string \<Rightarrow> string \<Rightarrow> string \<Rightarrow> (error + doc option) \<times> store" where
  "send_message s match_id sender_id text =
     (case create_document s ''message''
             [(''match_id'', Str match_id), (''sender_id'', Str sender_id), (''text'', Str text)] of
        (Inl e, s') \<Rightarrow> (Inl e, s')
      | (Inr mid, s') \<Rightarrow>
          (case ObjectId mid of
             Inl e \<Rightarrow> (Inl e, s')
           | Inr i \<Rightarrow> (Inr (to_doc (find_one s' ''message'' (Eq ''_id'' (Oid i)))), s')))"

text \<open>A store with no documents.\<close>

definition empty_store :: store where
  "empty_store = \<lparr>db = (\<lambda>c. []), next_id = 0, clock = 0\<rparr>"

section \<open>Notions used to state the properties\<close>

text \<open>The store after \<^verbatim>\<open>create_document\<close> has accepted a document.\<close>

definition inserted :: "store \<Rightarrow> string \<Rightarrow> doc \<Rightarrow> store" where
  "inserted s c data =
     s\<lparr>db := (db s)(c := db s c @
            [dict_set ''_id'' (Oid (oid_of_nat (next_id s)))
               (dict_set ''created_at'' (Datetime (clock s)) data)]),
       next_id := Suc (next_id s), clock := Suc (clock s)\<rparr>"

text \<open>\<open>has_liked s u t\<close>: the collection \<^verbatim>\<open>swipe\<close> holds a like of \<open>u\<close> on \<open>t\<close>.\<close>

definition has_liked :: "store \<Rightarrow> string \<Rightarrow> string \<Rightarrow> bool" where
  "has_liked s u t =
     list_ex (\<lambda>d. map_of d ''user_id'' = Some (Str u) \<and> map_of d ''target_id'' = Some (Str t)
                 \<and> map_of d ''action'' = Some (Str ''like'')) (db s ''swipe'')"

text \<open>
  A match record of the unordered pair \<open>{a, b}\<close>, in either order of its two sides, and the
  records of the pair that the collection \<^verbatim>\<open>match\<close> holds.
\<close>

definition is_match_of :: "string \<Rightarrow> string \<Rightarrow> doc \<Rightarrow> bool" where
  "is_match_of a b d =
     ((map_of d ''user_a'' = Some (Str a) \<and> map_of d ''user_b'' = Some (Str b)) \<or>
      (map_of d ''user_a'' = Some (Str b) \<and> map_of d ''user_b'' = Some (Str a)))"

definition matches_of :: "store \<Rightarrow> string \<Rightarrow> string \<Rightarrow> doc list" where
  "matches_of s a b = filter (is_match_of a b) (db s ''match'')"


text \<open>
  The texts that \<^verbatim>\<open>ObjectId\<close> accepts, stated as a grammar: 24 characters that are pairs of
  hexadecimal digits, with any ASCII whitespace in front of a pair and at the end. Then
  a document with a given identifier.
\<close>

inductive hex_pairs :: "string \<Rightarrow> bool" where
  hex_pairs_Nil: "hex_pairs []"
| hex_pairs_space: "is_space c \<Longrightarrow> hex_pairs cs \<Longrightarrow> hex_pairs (c # cs)"
| hex_pairs_byte:
    "hex_val a \<noteq> None \<Longrightarrow> hex_val b \<noteq> None \<Longrightarrow> hex_pairs cs \<Longrightarrow> hex_pairs (a # b # cs)"

definition valid_oid_text :: "string \<Rightarrow> bool" where
  "valid_oid_text p = (length p = 24 \<and> hex_pairs p)"

definition has_id :: "oid \<Rightarrow> doc \<Rightarrow> bool" where
  "has_id i d = (map_of d ''_id'' = Some (Oid i))"

text \<open>
  What \<^verbatim>\<open>$set\<close> does to one field \<open>k\<close> of a stored document \<open>d\<close>, giving \<open>d'\<close>: a field the
  request did not set keeps what was stored (also its absence), a field set to \<^verbatim>\<open>null\<close>
  becomes \<open>Null\<close>, a field set to \<open>x\<close> becomes \<open>x\<close>.
\<close>

definition field_applied :: "string \<Rightarrow> ('a \<Rightarrow> val) \<Rightarrow> 'a option option \<Rightarrow> doc \<Rightarrow> doc \<Rightarrow> bool" where
  "field_applied k conv f d d' =
     (map_of d' k = (case f of None \<Rightarrow> map_of d k
                     | Some None \<Rightarrow> Some Null
                     | Some (Some x) \<Rightarrow> Some (conv x)))"

text \<open>A document whose field \<^verbatim>\<open>email\<close> is \<open>e\<close>.\<close>

definition has_email :: "string \<Rightarrow> doc \<Rightarrow> bool" where
  "has_email e d = (map_of d ''email'' = Some (Str e))"

text \<open>
  The test of \<^verbatim>\<open>verify_otp\<close> on the newest record of the email: there is one and its code
  is the code supplied.
\<close>

definition otp_ok :: "store \<Rightarrow> string \<Rightarrow> string \<Rightarrow> bool" where
  "otp_ok s email code =
     (case next_doc (limit_docs 1 (sort_desc (find_docs s ''otp'' (Eq ''email'' (Str email))))) of
        None \<Rightarrow> False
      | Some d \<Rightarrow> d \<noteq> [] \<and> map_of d ''code'' = Some (Str code))"


text \<open>
  The request sets at least one field; it sets the field \<open>k\<close>; the age it sets, when it
  sets one, fits a signed integer of 8 bytes.
\<close>

definition some_field_set :: "ProfileUpdate \<Rightarrow> bool" where
  "some_field_set p =
     (name p \<noteq> None \<or> age p \<noteq> None \<or> gender p \<noteq> None \<or> bio p \<noteq> None \<or> interests p \<noteq> None
      \<or> photos p \<noteq> None \<or> location_lat p \<noteq> None \<or> location_lng p \<noteq> None)"

definition field_is_set :: "ProfileUpdate \<Rightarrow> string \<Rightarrow> bool" where
  "field_is_set p k =
     ((k = ''name'' \<and> name p \<noteq> None) \<or> (k = ''age'' \<and> age p \<noteq> None)
      \<or> (k = ''gender'' \<and> gender p \<noteq> None) \<or> (k = ''bio'' \<and> bio p \<noteq> None)
      \<or> (k = ''interests'' \<and> interests p \<noteq> None) \<or> (k = ''photos'' \<and> photos p \<noteq> None)
      \<or> (k = ''location_lat'' \<and> location_lat p \<noteq> None)
      \<or> (k = ''location_lng'' \<and> location_lng p \<noteq> None))"

definition age_fits :: "ProfileUpdate \<Rightarrow> bool" where
  "age_fits p =
     (case age p of
        Some (Some x) \<Rightarrow> - 9223372036854775808 \<le> x \<and> x < 9223372036854775808
      | _ \<Rightarrow> True)"

text \<open>The likes of \<open>u\<close> on \<open>t\<close> that the collection \<^verbatim>\<open>swipe\<close> holds.\<close>

definition likes_of :: "store \<Rightarrow> string \<Rightarrow> string \<Rightarrow> doc list" where
  "likes_of s u t =
     filter (\<lambda>d. map_of d ''user_id'' = Some (Str u) \<and> map_of d ''target_id'' = Some (Str t)
                 \<and> map_of d ''action'' = Some (Str ''like'')) (db s ''swipe'')"

section \<open>Basic facts about the model\<close>

subsection \<open>Digits and identifiers\<close>

lemma hex_val_digit_upto: "\<forall>j \<in> set [0..<16]. hex_val (hex_digit j) = Some j"
  by code_simp

lemma hex_val_digit: "hex_val (hex_digit k) = Some (k mod 16)"
proof -
  have "k mod 16 \<in> set [0..<16]" by simp
  then have "hex_val (hex_digit (k mod 16)) = Some (k mod 16)"
    by (rule bspec [OF hex_val_digit_upto])
  then show ?thesis by (simp add: hex_digit_def)
qed

lemma hex_digit_mod: "hex_digit (k mod 16) = hex_digit k"
  by (simp add: hex_digit_def)

lemma spaces_not_hex:
  "\<forall>c \<in> set [CHR '' '', CHR 0x09, CHR 0x0A, CHR 0x0B, CHR 0x0C, CHR 0x0D]. hex_val c = None"
  by code_simp

lemma space_not_hex: "is_space c \<Longrightarrow> hex_val c = None"
  unfolding is_space_def by (rule bspec [OF spaces_not_hex])

lemma fromhex_digits:
  "list_all (\<lambda>c. hex_val c \<noteq> None) xs \<Longrightarrow> even (length xs) \<Longrightarrow>
   fromhex xs = Some (map (\<lambda>c. hex_digit (the (hex_val c))) xs)"
proof (induction xs rule: fromhex.induct)
  case 1
  show ?case by simp
next
  case (2 c)
  then show ?case by simp
next
  case (3 c c' cs)
  from "3.prems" have h: "hex_val c \<noteq> None" "hex_val c' \<noteq> None"
    and r: "list_all (\<lambda>c. hex_val c \<noteq> None) cs" "even (length cs)" by simp_all
  from h(1) have ns: "\<not> is_space c" by (auto dest: space_not_hex)
  from h obtain a b where ab: "hex_val c = Some a" "hex_val c' = Some b" by blast
  from "3.IH"(2) [OF ns ab] r
  have "fromhex cs = Some (map (\<lambda>c. hex_digit (the (hex_val c))) cs)" by simp
  with ns ab show ?case by simp
qed

lemma fromhex_iff_pairs: "(fromhex xs \<noteq> None) = hex_pairs xs"
proof
  assume "fromhex xs \<noteq> None"
  then show "hex_pairs xs"
  proof (induction xs rule: fromhex.induct)
    case 1
    show ?case by (rule hex_pairs_Nil)
  next
    case (2 c)
    then have "is_space c" by (simp split: if_splits)
    then show ?case by (intro hex_pairs_space hex_pairs_Nil)
  next
    case (3 c c' cs)
    show ?case
    proof (cases "is_space c")
      case True
      with "3.prems" have "fromhex (c' # cs) \<noteq> None" by simp
      with "3.IH"(1) [OF True] have "hex_pairs (c' # cs)" by blast
      with True show ?thesis by (rule hex_pairs_space)
    next
      case False
      with "3.prems" obtain a b where ab: "hex_val c = Some a" "hex_val c' = Some b"
        and f: "fromhex cs \<noteq> None"
        by (auto split: option.splits)
      from "3.IH"(2) [OF False ab] f have "hex_pairs cs" by simp
      with ab show ?thesis by (intro hex_pairs_byte) simp_all
    qed
  qed
next
  assume "hex_pairs xs"
  then show "fromhex xs \<noteq> None"
  proof (induction rule: hex_pairs.induct)
    case hex_pairs_Nil
    show ?case by simp
  next
    case (hex_pairs_space c cs)
    then show ?case by (cases cs) simp_all
  next
    case (hex_pairs_byte a b cs)
    from hex_pairs_byte(1) have "\<not> is_space a" by (auto dest: space_not_hex)
    with hex_pairs_byte show ?case by (auto split: option.splits)
  qed
qed

lemma ObjectId_str_oid: "ObjectId (str_oid (oid_of_nat n)) = Inr (oid_of_nat n)"
proof -
  let ?h = "map (\<lambda>i. hex_digit (n div 16 ^ i)) (rev [0..<24])"
  have a: "list_all (\<lambda>c. hex_val c \<noteq> None) ?h"
    by (simp add: list_all_iff hex_val_digit)
  have "fromhex ?h = Some (map (\<lambda>c. hex_digit (the (hex_val c))) ?h)"
    using a by (rule fromhex_digits) simp
  then have "fromhex ?h = Some ?h"
    by (simp add: hex_val_digit hex_digit_mod comp_def)
  then show ?thesis by (simp add: ObjectId_def oid_of_nat_def)
qed

lemma ObjectId_valid_iff: "(\<exists>i. ObjectId p = Inr i) = valid_oid_text p"
  using fromhex_iff_pairs [of p]
  by (auto simp: ObjectId_def valid_oid_text_def split: option.splits)

lemma ObjectId_not_valid: "\<not> valid_oid_text p \<Longrightarrow> ObjectId p = Inl (InvalidId p)"
  using fromhex_iff_pairs [of p]
  by (auto simp: ObjectId_def valid_oid_text_def split: option.splits)

lemma hex_pairs_digits:
  "list_all (\<lambda>c. hex_val c \<noteq> None) xs \<Longrightarrow> even (length xs) \<Longrightarrow> hex_pairs xs"
  using fromhex_digits [of xs] fromhex_iff_pairs [of xs] by simp

lemma is_digit_upto: "\<forall>j \<in> set [0..<10]. is_digit (digit_char j)"
  by code_simp

lemma digit_zero_upto: "\<forall>j \<in> set [0..<10]. (digit_char j = CHR ''0'') = (j = 0)"
  by code_simp

lemma digit_char_mod: "digit_char (k mod 10) = digit_char k"
  by (simp add: digit_char_def)

lemma is_digit_digit_char: "is_digit (digit_char k)"
proof -
  have "k mod 10 \<in> set [0..<10]" by simp
  then have "is_digit (digit_char (k mod 10))" by (rule bspec [OF is_digit_upto])
  then show ?thesis by (simp add: digit_char_mod)
qed

lemma digit_char_zero: "(digit_char k = CHR ''0'') = (k mod 10 = 0)"
proof -
  have "k mod 10 \<in> set [0..<10]" by simp
  then have "(digit_char (k mod 10) = CHR ''0'') = (k mod 10 = 0)"
    by (rule bspec [OF digit_zero_upto])
  then show ?thesis by (simp add: digit_char_mod)
qed

lemma str_nat_small: "n < 10 \<Longrightarrow> str_nat n = [digit_char n]"
  by (subst str_nat.simps) simp

lemma str_nat_step: "10 \<le> n \<Longrightarrow> str_nat n = str_nat (n div 10) @ [digit_char n]"
  by (subst str_nat.simps) (simp add: digit_char_def)

text \<open>A number of the range of \<^verbatim>\<open>randint(100000, 999999)\<close> prints as six digits.\<close>

lemma str_nat_six:
  assumes "100000 \<le> n" "n \<le> 999999"
  shows "\<exists>a b c d e f. str_nat n = [digit_char a, digit_char b, digit_char c,
           digit_char d, digit_char e, digit_char f] \<and> 1 \<le> a \<and> a < 10"
proof -
  define n1 where "n1 = n div 10"
  define n2 where "n2 = n1 div 10"
  define n3 where "n3 = n2 div 10"
  define n4 where "n4 = n3 div 10"
  define n5 where "n5 = n4 div 10"
  have r1: "10000 \<le> n1 \<and> n1 < 100000"
    unfolding n1_def using assms by linarith
  have r2: "1000 \<le> n2 \<and> n2 < 10000"
    unfolding n2_def using r1 by linarith
  have r3: "100 \<le> n3 \<and> n3 < 1000"
    unfolding n3_def using r2 by linarith
  have r4: "10 \<le> n4 \<and> n4 < 100"
    unfolding n4_def using r3 by linarith
  have r5: "1 \<le> n5 \<and> n5 < 10"
    unfolding n5_def using r4 by linarith
  have "str_nat n = str_nat n1 @ [digit_char n]"
    unfolding n1_def using assms by (intro str_nat_step) simp
  moreover have "str_nat n1 = str_nat n2 @ [digit_char n1]"
    unfolding n2_def using r1 by (intro str_nat_step) simp
  moreover have "str_nat n2 = str_nat n3 @ [digit_char n2]"
    unfolding n3_def using r2 by (intro str_nat_step) simp
  moreover have "str_nat n3 = str_nat n4 @ [digit_char n3]"
    unfolding n4_def using r3 by (intro str_nat_step) simp
  moreover have "str_nat n4 = str_nat n5 @ [digit_char n4]"
    unfolding n5_def using r4 by (intro str_nat_step) simp
  moreover have "str_nat n5 = [digit_char n5]"
    using r5 by (intro str_nat_small) simp
  ultimately have "str_nat n = [digit_char n5, digit_char n4, digit_char n3,
                      digit_char n2, digit_char n1, digit_char n]" by simp
  with r5 show ?thesis by blast
qed

lemma str_int_six:
  assumes "100000 \<le> r" "r \<le> 999999"
  shows "length (str_int r) = 6 \<and> list_all is_digit (str_int r) \<and> hd (str_int r) \<noteq> CHR ''0''"
proof -
  have "100000 \<le> nat r" "nat r \<le> 999999" using assms by simp_all
  from str_nat_six [OF this] obtain a b c d e f where
    s: "str_nat (nat r) = [digit_char a, digit_char b, digit_char c,
           digit_char d, digit_char e, digit_char f]" and a: "1 \<le> a" "a < 10"
    by blast
  have "str_int r = str_nat (nat r)" using assms by (simp add: str_int_def)
  moreover have "digit_char a \<noteq> CHR ''0''" using a by (simp add: digit_char_zero)
  ultimately show ?thesis by (simp add: s is_digit_digit_char)
qed

subsection \<open>Inserting a document\<close>

lemma schema_ok_other: "c \<noteq> ''message'' \<Longrightarrow> schema_ok c d"
  by (simp add: schema_ok_def)

lemma create_document_ok:
  "schema_ok c data \<Longrightarrow>
   create_document s c data =
     (Inr (str_oid (oid_of_nat (next_id s))),
      s\<lparr>db := (db s)(c := db s c @
             [dict_set ''_id'' (Oid (oid_of_nat (next_id s)))
                (dict_set ''created_at'' (Datetime (clock s)) data)]),
        next_id := Suc (next_id s), clock := Suc (clock s)\<rparr>)"
  by (simp add: create_document_def Let_def)

lemma create_document_rejected:
  "\<not> schema_ok c data \<Longrightarrow> create_document s c data = (Inl (ValidationError c), s)"
  by (simp add: create_document_def)

lemma randint_code: "randint 100000 999999 u = Inr (100000 + int (u mod 900000))"
  by (simp add: randint_def)

lemma randint_range:
  "100000 \<le> 100000 + int (u mod 900000) \<and> 100000 + int (u mod 900000) \<le> 999999"
proof -
  have "u mod 900000 < 900000" by simp
  then show ?thesis by linarith
qed

lemma request_otp_eq:
  "request_otp s u email =
     (Inr [(''sent'', Bool True), (''code'', Str (str_int (100000 + int (u mod 900000))))],
      s\<lparr>db := (db s)(''otp'' := db s ''otp'' @
             [[(''email'', Str email), (''code'', Str (str_int (100000 + int (u mod 900000)))),
               (''created_at'', Datetime (clock s)), (''_id'', Oid (oid_of_nat (next_id s)))]]),
        next_id := Suc (next_id s), clock := Suc (clock s)\<rparr>)"
  by (simp add: request_otp_def randint_code Let_def create_document_ok schema_ok_other)

lemma randint_unique:
  assumes "100000 \<le> r" and "r \<le> 999999"
  shows "\<exists>!u. u < 900000 \<and> randint 100000 999999 u = Inr r"
proof (rule ex1I [of _ "nat (r - 100000)"])
  show "nat (r - 100000) < 900000 \<and> randint 100000 999999 (nat (r - 100000)) = Inr r"
    using assms by (simp add: randint_code)
next
  fix u
  assume a: "u < 900000 \<and> randint 100000 999999 u = Inr r"
  then have "u mod 900000 = u" by simp
  with a have "r = 100000 + int u" by (simp add: randint_code)
  then show "u = nat (r - 100000)" by simp
qed

subsection \<open>Swipes\<close>

lemma create_document_inserted:
  "schema_ok c data \<Longrightarrow>
   create_document s c data = (Inr (str_oid (oid_of_nat (next_id s))), inserted s c data)"
  by (simp add: create_document_ok inserted_def)

lemma db_inserted:
  "db (inserted s c data) c' =
     (if c' = c then db s c @ [dict_set ''_id'' (Oid (oid_of_nat (next_id s)))
               (dict_set ''created_at'' (Datetime (clock s)) data)] else db s c')"
  by (simp add: inserted_def)

lemma next_id_inserted: "next_id (inserted s c data) = Suc (next_id s)"
  by (simp add: inserted_def)

lemma clock_inserted: "clock (inserted s c data) = Suc (clock s)"
  by (simp add: inserted_def)

lemma truthy_find:
  "\<not> P [] \<Longrightarrow> truthy_doc (find P ds) = list_ex P ds"
  by (induction ds) auto

lemma swipe_invalid:
  "action \<noteq> ''like'' \<Longrightarrow> action \<noteq> ''pass'' \<Longrightarrow>
   swipe s p t action = (Inl (HTTPException 400 ''Invalid action''), s)"
  by (simp add: swipe_def)

lemma swipe_pass:
  "swipe s p t ''pass'' =
     (Inr (swipe_response False None),
      inserted s ''swipe'' [(''user_id'', Str p), (''target_id'', Str t), (''action'', Str ''pass'')])"
  by (simp add: swipe_def create_document_inserted schema_ok_other)

lemma swipe_like:
  "swipe s p t ''like'' =
     (let s1 = inserted s ''swipe''
                 [(''user_id'', Str p), (''target_id'', Str t), (''action'', Str ''like'')]
      in if has_liked s1 t p then
           (case find (is_match_of p t) (db s ''match'') of
              None \<Rightarrow>
                (Inr (swipe_response True (Some (str_oid (oid_of_nat (Suc (next_id s)))))),
                 inserted s1 ''match'' [(''user_a'', Str p), (''user_b'', Str t)])
            | Some existing \<Rightarrow>
                (Inr (swipe_response True (Some (str_val (map_of existing ''_id'')))), s1))
         else (Inr (swipe_response False None), s1))"
proof -
  let ?s1 = "inserted s ''swipe''
                 [(''user_id'', Str p), (''target_id'', Str t), (''action'', Str ''like'')]"
  let ?Q = "\<lambda>d. map_of d ''user_id'' = Some (Str t) \<and> map_of d ''target_id'' = Some (Str p)
                 \<and> map_of d ''action'' = Some (Str ''like'')"
  have q: "matches (All [Eq ''user_id'' (Str t), Eq ''target_id'' (Str p), Eq ''action'' (Str ''like'')])
         = ?Q"
    by (rule ext) simp
  have m: "matches (Or [All [Eq ''user_a'' (Str p), Eq ''user_b'' (Str t)],
                        All [Eq ''user_a'' (Str t), Eq ''user_b'' (Str p)]]) = is_match_of p t"
    by (rule ext) (simp add: is_match_of_def)
  have L: "truthy_doc (find_one ?s1 ''swipe''
             (All [Eq ''user_id'' (Str t), Eq ''target_id'' (Str p), Eq ''action'' (Str ''like'')]))
           = has_liked ?s1 t p"
    unfolding find_one_def has_liked_def q by (rule truthy_find) simp
  have M: "find_one ?s1 ''match''
             (Or [All [Eq ''user_a'' (Str p), Eq ''user_b'' (Str t)],
                  All [Eq ''user_a'' (Str t), Eq ''user_b'' (Str p)]])
           = find (is_match_of p t) (db s ''match'')"
    unfolding find_one_def m by (simp add: db_inserted)
  have C: "create_document ?s1 ''match'' [(''user_a'', Str p), (''user_b'', Str t)]
           = (Inr (str_oid (oid_of_nat (Suc (next_id s)))),
              inserted ?s1 ''match'' [(''user_a'', Str p), (''user_b'', Str t)])"
    by (simp add: create_document_inserted schema_ok_other next_id_inserted)
  have S: "create_document s ''swipe''
             [(''user_id'', Str p), (''target_id'', Str t), (''action'', Str ''like'')]
           = (Inr (str_oid (oid_of_nat (next_id s))), ?s1)"
    by (simp add: create_document_inserted schema_ok_other)
  show ?thesis
  proof (cases "find (is_match_of p t) (db s ''match'')")
    case None
    then show ?thesis
      unfolding swipe_def by (simp add: S L M C Let_def)
  next
    case (Some d)
    then have "is_match_of p t d" by (auto simp: find_Some_iff)
    then have "d \<noteq> []" by (auto simp: is_match_of_def)
    with Some show ?thesis
      unfolding swipe_def by (simp add: S L M C Let_def)
  qed
qed

lemma find_append_last: "\<not> list_ex P xs \<Longrightarrow> P x \<Longrightarrow> find P (xs @ [x]) = Some x"
  by (induction xs) auto

lemma is_match_of_sym: "is_match_of a b = is_match_of b a"
  by (rule ext) (auto simp: is_match_of_def)

lemma find_matches_of: "(find (is_match_of a b) (db s ''match'') = None) = (matches_of s a b = [])"
  by (auto simp: matches_of_def find_None_iff filter_empty_conv)

lemma has_liked_inserted:
  "has_liked (inserted s ''swipe'' [(''user_id'', Str p), (''target_id'', Str t), (''action'', Str ''like'')]) u v
     = (has_liked s u v \<or> (u = p \<and> v = t))"
  by (auto simp: has_liked_def db_inserted)

lemma matches_of_inserted_swipe: "matches_of (inserted s ''swipe'' d) a b = matches_of s a b"
  by (simp add: matches_of_def db_inserted)

lemma matches_of_inserted_match:
  "matches_of (inserted s ''match'' [(''user_a'', Str p), (''user_b'', Str t)]) a b
     = matches_of s a b @
       (if (p = a \<and> t = b) \<or> (p = b \<and> t = a)
        then [[(''user_a'', Str p), (''user_b'', Str t), (''created_at'', Datetime (clock s)),
               (''_id'', Oid (oid_of_nat (next_id s)))]]
        else [])"
  by (auto simp: matches_of_def db_inserted is_match_of_def)

lemma swipe_swipes:
  "action = ''like'' \<or> action = ''pass'' \<Longrightarrow>
     (\<exists>r. fst (swipe s p t action) = Inr r) \<and>
     db (snd (swipe s p t action)) ''swipe'' =
       db s ''swipe'' @ [[(''user_id'', Str p), (''target_id'', Str t), (''action'', Str action),
                         (''created_at'', Datetime (clock s)), (''_id'', Oid (oid_of_nat (next_id s)))]]"
proof (erule disjE)
  assume a: "action = ''like''"
  show ?thesis unfolding a
    by (cases "find (is_match_of p t) (db s ''match'')")
       (simp_all add: swipe_like Let_def db_inserted)
next
  assume a: "action = ''pass''"
  show ?thesis unfolding a by (simp add: swipe_pass db_inserted)
qed



lemma matches_of_sym: "matches_of s a b = matches_of s b a"
  by (simp add: matches_of_def is_match_of_sym [of a b])

lemma swipe_first_like:
  assumes "a \<noteq> b" and "\<not> has_liked s b a"
  shows "swipe s a b ''like'' =
           (Inr (swipe_response False None),
            inserted s ''swipe'' [(''user_id'', Str a), (''target_id'', Str b), (''action'', Str ''like'')])"
  using assms by (simp add: swipe_like Let_def has_liked_inserted)

lemma swipe_second_like:
  assumes "has_liked s a b"
  shows "\<exists>m. fst (swipe s b a ''like'') = Inr (swipe_response True (Some m))
      \<and> (matches_of s a b = [] \<longrightarrow>
            db (snd (swipe s b a ''like'')) ''match'' =
              db s ''match'' @ [[(''user_a'', Str b), (''user_b'', Str a),
                                (''created_at'', Datetime (Suc (clock s))),
                                (''_id'', Oid (oid_of_nat (Suc (next_id s))))]])
      \<and> (matches_of s a b \<noteq> [] \<longrightarrow> db (snd (swipe s b a ''like'')) ''match'' = db s ''match'')
      \<and> length (matches_of (snd (swipe s b a ''like'')) a b) = max 1 (length (matches_of s a b))"
proof (cases "find (is_match_of b a) (db s ''match'')")
  case None
  then have e: "matches_of s a b = []"
    using find_matches_of [of b a s] by (simp add: matches_of_sym [of s a b])
  with None assms show ?thesis
    by (intro exI [of _ "str_oid (oid_of_nat (Suc (next_id s)))"])
       (simp add: swipe_like Let_def has_liked_inserted db_inserted next_id_inserted
          clock_inserted matches_of_inserted_swipe matches_of_inserted_match)
next
  case (Some d)
  then have e: "matches_of s a b \<noteq> []"
    using find_matches_of [of b a s] by (simp add: matches_of_sym [of s a b])
  then have "1 \<le> length (matches_of s a b)" by (cases "matches_of s a b") simp_all
  with e Some assms show ?thesis
    by (intro exI [of _ "str_val (map_of d ''_id'')"])
       (simp add: swipe_like Let_def has_liked_inserted db_inserted matches_of_inserted_swipe max_def)
qed

lemma likes_of_none: "\<not> has_liked s u t \<Longrightarrow> likes_of s u t = []"
  by (simp add: has_liked_def likes_of_def list_ex_iff filter_empty_conv)

lemma likes_of_swipes: "db s' ''swipe'' = db s ''swipe'' @ [d] \<Longrightarrow>
  likes_of s' u t = likes_of s u t @
     (if map_of d ''user_id'' = Some (Str u) \<and> map_of d ''target_id'' = Some (Str t)
         \<and> map_of d ''action'' = Some (Str ''like'') then [d] else [])"
  by (simp add: likes_of_def)

subsection \<open>Profiles\<close>

lemma matches_id: "matches (Eq ''_id'' (Oid i)) = has_id i"
  by (rule ext) (simp add: has_id_def)

lemma truthy_find_id: "truthy_doc (find (has_id i) ds) = list_ex (has_id i) ds"
  by (rule truthy_find) (simp add: has_id_def)

lemma get_me_valid:
  "ObjectId p = Inr i \<Longrightarrow>
   get_me s p = (if list_ex (has_id i) (db s ''profile'')
                 then Inr (to_doc (find (has_id i) (db s ''profile'')))
                 else Inl (HTTPException 404 ''Profile not found''))"
  by (simp add: get_me_def find_one_def matches_id truthy_find_id)



lemma map_of_dict_set: "map_of (dict_set k v d) = (map_of d)(k \<mapsto> v)"
  by (induction d) auto

lemma map_of_set_fields: "map_of (set_fields upd d) = map_of d ++ map_of (rev upd)"
  unfolding set_fields_def
proof (induction upd arbitrary: d)
  case Nil
  show ?case by simp
next
  case (Cons p upd)
  obtain k v where p: "p = (k, v)" by (cases p)
  show ?case by (simp add: p Cons.IH map_of_dict_set map_add_def fun_eq_iff split: option.split)
qed

lemma map_of_rev_distinct: "distinct (map fst xs) \<Longrightarrow> map_of (rev xs) = map_of xs"
proof (induction xs)
  case Nil
  show ?case by simp
next
  case (Cons p xs)
  obtain k v where p: "p = (k, v)" by (cases p)
  from Cons.prems have "k \<notin> fst ` set xs" by (simp add: p)
  then have "map_of xs k = None" by (simp add: map_of_eq_None_iff)
  with Cons show ?case by (auto simp: p map_add_def fun_eq_iff split: option.split)
qed

lemma set_fields_lookup:
  "distinct (map fst upd) \<Longrightarrow>
   map_of (set_fields upd d) k = (case map_of upd k of None \<Rightarrow> map_of d k | Some v \<Rightarrow> Some v)"
  by (simp add: map_of_set_fields map_of_rev_distinct map_add_def)

lemma keys_dump_field: "map fst (dump_field k conv f) = (if f = None then [] else [k])"
  by (auto simp: dump_field_def split: option.split)

lemma distinct_model_dump: "distinct (map fst (model_dump p))"
  by (simp add: model_dump_def keys_dump_field)

lemma map_of_dump_field_append:
  "map_of (dump_field k conv f @ rest) k' =
     (if k' = k then (case f of None \<Rightarrow> map_of rest k' | Some None \<Rightarrow> Some Null
                      | Some (Some x) \<Rightarrow> Some (conv x))
      else map_of rest k')"
  by (auto simp: dump_field_def split: option.split)

lemma map_of_dump_field:
  "map_of (dump_field k conv f) k' =
     (if k' = k then (case f of None \<Rightarrow> None | Some None \<Rightarrow> Some Null
                      | Some (Some x) \<Rightarrow> Some (conv x))
      else None)"
  by (auto simp: dump_field_def split: option.split)

lemma map_of_model_dump:
  "map_of (model_dump p) k =
    (if k = ''name'' then (case name p of None \<Rightarrow> None | Some None \<Rightarrow> Some Null | Some (Some x) \<Rightarrow> Some (Str x))
     else if k = ''age'' then (case age p of None \<Rightarrow> None | Some None \<Rightarrow> Some Null | Some (Some x) \<Rightarrow> Some (IntV x))
     else if k = ''gender'' then (case gender p of None \<Rightarrow> None | Some None \<Rightarrow> Some Null | Some (Some x) \<Rightarrow> Some (Str x))
     else if k = ''bio'' then (case bio p of None \<Rightarrow> None | Some None \<Rightarrow> Some Null | Some (Some x) \<Rightarrow> Some (Str x))
     else if k = ''interests'' then (case interests p of None \<Rightarrow> None | Some None \<Rightarrow> Some Null | Some (Some x) \<Rightarrow> Some (StrList x))
     else if k = ''photos'' then (case photos p of None \<Rightarrow> None | Some None \<Rightarrow> Some Null | Some (Some x) \<Rightarrow> Some (StrList x))
     else if k = ''location_lat'' then (case location_lat p of None \<Rightarrow> None | Some None \<Rightarrow> Some Null | Some (Some x) \<Rightarrow> Some (FloatV x))
     else if k = ''location_lng'' then (case location_lng p of None \<Rightarrow> None | Some None \<Rightarrow> Some Null | Some (Some x) \<Rightarrow> Some (FloatV x))
     else None)"
  unfolding model_dump_def
  by (simp only: map_of_dump_field_append map_of_dump_field) (simp split: option.split)

lemma model_dump_empty:
  "(model_dump p = []) =
     (name p = None \<and> age p = None \<and> gender p = None \<and> bio p = None \<and> interests p = None
      \<and> photos p = None \<and> location_lat p = None \<and> location_lng p = None)"
  by (simp add: model_dump_def dump_field_def split: option.split)

lemma update_first_split:
  "\<not> list_ex P xs \<Longrightarrow> P d \<Longrightarrow> update_first P f (xs @ d # ys) = xs @ f d # ys"
  by (induction xs) auto

lemma find_split: "\<not> list_ex P xs \<Longrightarrow> P d \<Longrightarrow> find P (xs @ d # ys) = Some d"
  by (induction xs) auto

lemma set_fields_model_dump:
  "map_of (set_fields (model_dump p) d) k =
     (case map_of (model_dump p) k of None \<Rightarrow> map_of d k | Some v \<Rightarrow> Some v)"
  by (rule set_fields_lookup) (rule distinct_model_dump)

lemma has_id_set_fields: "has_id i (set_fields (model_dump p) d) = has_id i d"
  by (simp add: has_id_def set_fields_model_dump map_of_model_dump)

lemma some_field_set_dump: "(model_dump p \<noteq> []) = some_field_set p"
  by (simp add: model_dump_empty some_field_set_def)

lemma field_is_set_dump: "(map_of (model_dump p) k = None) = (\<not> field_is_set p k)"
proof -
  have 1: "k = ''name'' \<Longrightarrow> ?thesis"
    by (simp add: map_of_model_dump field_is_set_def split: option.split)
  have 2: "k = ''age'' \<Longrightarrow> ?thesis"
    by (simp add: map_of_model_dump field_is_set_def split: option.split)
  have 3: "k = ''gender'' \<Longrightarrow> ?thesis"
    by (simp add: map_of_model_dump field_is_set_def split: option.split)
  have 4: "k = ''bio'' \<Longrightarrow> ?thesis"
    by (simp add: map_of_model_dump field_is_set_def split: option.split)
  have 5: "k = ''interests'' \<Longrightarrow> ?thesis"
    by (simp add: map_of_model_dump field_is_set_def split: option.split)
  have 6: "k = ''photos'' \<Longrightarrow> ?thesis"
    by (simp add: map_of_model_dump field_is_set_def split: option.split)
  have 7: "k = ''location_lat'' \<Longrightarrow> ?thesis"
    by (simp add: map_of_model_dump field_is_set_def split: option.split)
  have 8: "k = ''location_lng'' \<Longrightarrow> ?thesis"
    by (simp add: map_of_model_dump field_is_set_def split: option.split)
  have 9: "k \<noteq> ''name'' \<Longrightarrow> k \<noteq> ''age'' \<Longrightarrow> k \<noteq> ''gender'' \<Longrightarrow> k \<noteq> ''bio'' \<Longrightarrow>
           k \<noteq> ''interests'' \<Longrightarrow> k \<noteq> ''photos'' \<Longrightarrow> k \<noteq> ''location_lat'' \<Longrightarrow>
           k \<noteq> ''location_lng'' \<Longrightarrow> ?thesis"
    by (simp add: map_of_model_dump field_is_set_def)
  from 1 2 3 4 5 6 7 8 9 show ?thesis by blast
qed

lemma encodable_dump_str: "list_all (\<lambda>(k, v). encodable v) (dump_field k Str f)"
  by (simp add: dump_field_def split: option.split)

lemma encodable_dump_list: "list_all (\<lambda>(k, v). encodable v) (dump_field k StrList f)"
  by (simp add: dump_field_def split: option.split)

lemma encodable_dump_float: "list_all (\<lambda>(k, v). encodable v) (dump_field k FloatV f)"
  by (simp add: dump_field_def split: option.split)

lemma encodable_dump_int:
  "list_all (\<lambda>(k, v). encodable v) (dump_field k IntV f) =
     (case f of Some (Some x) \<Rightarrow> - 9223372036854775808 \<le> x \<and> x < 9223372036854775808
      | _ \<Rightarrow> True)"
  by (simp add: dump_field_def split: option.split)

lemma model_dump_encodable: "list_all (\<lambda>(k, v). encodable v) (model_dump p) = age_fits p"
  by (simp add: model_dump_def encodable_dump_str encodable_dump_list encodable_dump_float
        encodable_dump_int age_fits_def)

lemma update_me_empty:
  "\<not> some_field_set payload \<Longrightarrow>
   update_me s p payload = (Inr (Some [(''updated'', Bool False)]), s)"
  by (simp add: update_me_def some_field_set_dump [symmetric])

lemma update_me_overflow:
  "some_field_set payload \<Longrightarrow> \<not> age_fits payload \<Longrightarrow> ObjectId p = Inr i \<Longrightarrow>
   update_me s p payload = (Inl OverflowError, s)"
  by (simp add: update_me_def some_field_set_dump [symmetric] update_one_def model_dump_encodable)

lemma update_me_invalid:
  "some_field_set payload \<Longrightarrow> \<not> valid_oid_text p \<Longrightarrow>
   update_me s p payload = (Inl (InvalidId p), s)"
  by (simp add: update_me_def some_field_set_dump [symmetric] ObjectId_not_valid)

lemma update_me_found:
  assumes "some_field_set payload" and "age_fits payload" and "ObjectId p = Inr i"
    and "db s ''profile'' = xs @ d # ys" and "\<not> list_ex (has_id i) xs" and "has_id i d"
  shows "update_me s p payload =
           (Inr (to_doc (Some (set_fields (model_dump payload) d))),
            s\<lparr>db := (db s)(''profile'' := xs @ set_fields (model_dump payload) d # ys)\<rparr>)"
proof -
  have u: "update_first (has_id i) (set_fields (model_dump payload)) (xs @ d # ys)
           = xs @ set_fields (model_dump payload) d # ys"
    using assms(5,6) by (rule update_first_split)
  have "has_id i (set_fields (model_dump payload) d)"
    using assms(6) by (simp add: has_id_set_fields)
  with assms(5) have f: "find (has_id i) (xs @ set_fields (model_dump payload) d # ys)
           = Some (set_fields (model_dump payload) d)"
    by (rule find_split)
  show ?thesis
    using assms(1,2,3)
    by (simp add: update_me_def Let_def update_one_def find_one_def matches_id assms(4) u f
          some_field_set_dump [symmetric] model_dump_encodable)
qed

lemma update_first_rel:
  "(\<And>d. R d d) \<Longrightarrow> (\<And>d. R d (f d)) \<Longrightarrow> list_all2 R ds (update_first P f ds)"
  by (induction ds) (auto intro: list_all2_refl)

lemma update_me_store:
  "snd (update_me s p payload) = s \<or>
   (\<exists>i. snd (update_me s p payload) =
          s\<lparr>db := (db s)(''profile'' :=
               update_first (has_id i) (set_fields (model_dump payload)) (db s ''profile''))\<rparr>)"
  by (auto simp: update_me_def update_one_def Let_def matches_id split: sum.splits)

lemma set_fields_keeps:
  "\<not> field_is_set payload k \<Longrightarrow> map_of (set_fields (model_dump payload) d) k = map_of d k"
  using field_is_set_dump [of payload k] by (simp add: set_fields_model_dump)

lemma update_me_frame:
  "list_all2 (\<lambda>d d'. \<forall>k. \<not> field_is_set payload k \<longrightarrow> map_of d' k = map_of d k)
     (db s ''profile'') (db (snd (update_me s p payload)) ''profile'')
   \<and> (\<forall>c. c \<noteq> ''profile'' \<longrightarrow> db (snd (update_me s p payload)) c = db s c)"
proof -
  let ?R = "\<lambda>d d'. \<forall>k. \<not> field_is_set payload k \<longrightarrow> map_of d' k = map_of d k"
  have r: "list_all2 ?R ds ds" for ds by (rule list_all2_refl) simp
  have u: "list_all2 ?R ds (update_first P (set_fields (model_dump payload)) ds)" for ds P
    by (rule update_first_rel) (simp_all add: set_fields_keeps)
  from update_me_store [of s p payload] show ?thesis
  proof
    assume "snd (update_me s p payload) = s"
    then show ?thesis using r by simp
  next
    assume "\<exists>i. snd (update_me s p payload) =
          s\<lparr>db := (db s)(''profile'' :=
               update_first (has_id i) (set_fields (model_dump payload)) (db s ''profile''))\<rparr>"
    then obtain i where "snd (update_me s p payload) =
          s\<lparr>db := (db s)(''profile'' :=
               update_first (has_id i) (set_fields (model_dump payload)) (db s ''profile''))\<rparr>"
      by blast
    then show ?thesis using u by simp
  qed
qed


subsection \<open>Verification\<close>

lemma matches_email: "matches (Eq ''email'' (Str e)) = has_email e"
  by (rule ext) (simp add: has_email_def)

lemma truthy_find_email: "truthy_doc (find (has_email e) ds) = list_ex (has_email e) ds"
  by (rule truthy_find) (simp add: has_email_def)

lemma verify_otp_eq:
  "verify_otp s e c =
     (if \<not> otp_ok s e c then (Inl (HTTPException 400 ''Invalid code''), s)
      else case find (has_email e) (db s ''profile'') of
             None \<Rightarrow>
               (Inr [(''ok'', Bool True), (''profile_id'', Str (str_oid (oid_of_nat (next_id s))))],
                inserted s ''profile'' [(''email'', Str e), (''name'', Str (local_part e))])
           | Some x \<Rightarrow>
               (Inr [(''ok'', Bool True), (''profile_id'', Str (str_val (map_of x ''_id'')))], s))"
proof (cases "find (has_email e) (db s ''profile'')")
  case None
  then show ?thesis
    by (simp add: verify_otp_def Let_def otp_ok_def find_one_def matches_email
          create_document_inserted schema_ok_other split: option.split)
next
  case (Some x)
  then have "has_email e x" by (auto simp: find_Some_iff)
  then have "x \<noteq> []" by (auto simp: has_email_def)
  with Some show ?thesis
    by (simp add: verify_otp_def Let_def otp_ok_def find_one_def matches_email
          split: option.split)
qed

lemma newest_empty: "next_doc (limit_docs 1 (sort_desc [])) = None"
  by (simp add: limit_docs_def sort_desc_def)

lemma newest_nonempty:
  "ds \<noteq> [] \<Longrightarrow> next_doc (limit_docs 1 (sort_desc ds)) = Some (last (sort_key created_at ds))"
proof -
  assume "ds \<noteq> []"
  then have "length (sort_key created_at ds) \<noteq> 0" by simp
  then have "sort_key created_at ds \<noteq> []" by (simp del: length_sort)
  then obtain y ys where r: "rev (sort_key created_at ds) = y # ys"
    by (cases "rev (sort_key created_at ds)") simp_all
  then have "last (sort_key created_at ds) = y" using hd_rev [of "sort_key created_at ds"] by simp
  with r show ?thesis by (simp add: limit_docs_def sort_desc_def)
qed

lemma sorted_le_last: "sorted xs \<Longrightarrow> x \<in> set xs \<Longrightarrow> x \<le> last (xs::'b::linorder list)"
  by (induction xs) auto

lemma last_sort_key_newest:
  fixes f :: "'a \<Rightarrow> 'b::linorder"
  assumes "d \<in> set ds" and "\<forall>x \<in> set ds. x \<noteq> d \<longrightarrow> f x < f d"
  shows "last (sort_key f ds) = d"
proof -
  let ?ys = "sort_key f ds"
  have "set ?ys \<noteq> {}" using assms(1) by auto
  then have ne: "?ys \<noteq> []" by (simp del: set_sort)
  have s: "sorted (map f ?ys)" by (rule sorted_sort_key)
  have "d \<in> set ?ys" using assms(1) by simp
  then have "f d \<in> set (map f ?ys)" by simp
  with s have "f d \<le> last (map f ?ys)" by (rule sorted_le_last)
  then have le: "f d \<le> f (last ?ys)" using ne by (simp add: last_map)
  have "last ?ys \<in> set ds" using ne last_in_set [of ?ys] by simp
  with assms(2) le show ?thesis by (auto simp: not_less [symmetric])
qed


lemma otp_ok_none:
  "find_docs s ''otp'' (Eq ''email'' (Str e)) = [] \<Longrightarrow> \<not> otp_ok s e c"
  by (simp add: otp_ok_def newest_empty)

lemma otp_ok_newest:
  assumes "d \<in> set (find_docs s ''otp'' (Eq ''email'' (Str e)))"
    and "\<forall>x \<in> set (find_docs s ''otp'' (Eq ''email'' (Str e))). x \<noteq> d \<longrightarrow> created_at x < created_at d"
  shows "otp_ok s e c = (map_of d ''code'' = Some (Str c))"
proof -
  let ?ds = "find_docs s ''otp'' (Eq ''email'' (Str e))"
  have ne: "?ds \<noteq> []" using assms(1) by auto
  have l: "last (sort_key created_at ?ds) = d" using assms by (rule last_sort_key_newest)
  have "has_email e d" using assms(1) by (simp add: find_docs_def matches_email)
  then have "d \<noteq> []" by (auto simp: has_email_def)
  then show ?thesis by (simp add: otp_ok_def newest_nonempty [OF ne] l)
qed



lemma local_part_split: "CHR ''@'' \<notin> set l \<Longrightarrow> local_part (l @ CHR ''@'' # rest) = l"
  by (induction l) (auto simp: local_part_def)

lemma otp_ok_inserted_profile: "otp_ok (inserted s ''profile'' d) e c = otp_ok s e c"
  by (simp add: otp_ok_def find_docs_def db_inserted)

lemma verify_otp_new:
  assumes "otp_ok s e c" and "\<not> list_ex (has_email e) (db s ''profile'')"
  shows "verify_otp s e c =
           (Inr [(''ok'', Bool True), (''profile_id'', Str (str_oid (oid_of_nat (next_id s))))],
            inserted s ''profile'' [(''email'', Str e), (''name'', Str (local_part e))])"
proof -
  from assms(2) have "find (has_email e) (db s ''profile'') = None"
    by (auto simp: find_None_iff list_ex_iff)
  with assms(1) show ?thesis by (simp add: verify_otp_eq)
qed

lemma verify_otp_again:
  assumes "otp_ok s e c" and "\<not> list_ex (has_email e) (db s ''profile'')"
  shows "verify_otp (inserted s ''profile'' [(''email'', Str e), (''name'', Str (local_part e))]) e c =
           (Inr [(''ok'', Bool True), (''profile_id'', Str (str_oid (oid_of_nat (next_id s))))],
            inserted s ''profile'' [(''email'', Str e), (''name'', Str (local_part e))])"
proof -
  let ?new = "[(''email'', Str e), (''name'', Str (local_part e)),
               (''created_at'', Datetime (clock s)), (''_id'', Oid (oid_of_nat (next_id s)))]"
  have "find (has_email e) (db s ''profile'' @ [?new]) = Some ?new"
    using assms(2) by (rule find_append_last) (simp add: has_email_def)
  then show ?thesis
    using assms(1) by (simp add: verify_otp_eq otp_ok_inserted_profile db_inserted)
qed

lemma verify_otp_existing:
  assumes "otp_ok s e c" and "list_ex (has_email e) (db s ''profile'')"
  shows "\<exists>x. find (has_email e) (db s ''profile'') = Some x \<and>
           verify_otp s e c =
             (Inr [(''ok'', Bool True), (''profile_id'', Str (str_val (map_of x ''_id'')))], s)"
proof -
  from assms(2) have "find (has_email e) (db s ''profile'') \<noteq> None"
    by (auto simp: find_None_iff list_ex_iff)
  then obtain x where "find (has_email e) (db s ''profile'') = Some x" by blast
  with assms(1) show ?thesis by (simp add: verify_otp_eq)
qed

lemma verify_otp_success: "fst (verify_otp s e c) = Inr r \<Longrightarrow> otp_ok s e c"
  by (cases "otp_ok s e c") (simp_all add: verify_otp_eq)


subsection \<open>Messages\<close>


lemma schema_ok_message:
  "schema_ok ''message'' [(''match_id'', Str m), (''sender_id'', Str sid), (''text'', Str t)]
     = (1 \<le> length t \<and> length t \<le> 2000)"
  by (simp add: schema_ok_def)

lemma to_doc_stored:
  "to_doc (Some [(''match_id'', Str m), (''sender_id'', Str sid), (''text'', Str t),
                 (''created_at'', Datetime c), (''_id'', Oid i)])
     = Some [(''match_id'', Str m), (''sender_id'', Str sid), (''text'', Str t),
             (''created_at'', IsoFormat c), (''id'', Str (str_oid i))]"
  by (simp add: to_doc_def dict_pop_def)

lemma send_message_rejected:
  "\<not> (1 \<le> length t \<and> length t \<le> 2000) \<Longrightarrow>
   send_message s m sid t = (Inl (ValidationError ''message''), s)"
  by (simp add: send_message_def create_document_rejected schema_ok_message)

lemma send_message_accepted:
  "1 \<le> length t \<and> length t \<le> 2000 \<Longrightarrow>
   send_message s m sid t =
     (Inr (to_doc (find (has_id (oid_of_nat (next_id s)))
                     (db s ''message'' @
                        [[(''match_id'', Str m), (''sender_id'', Str sid), (''text'', Str t),
                          (''created_at'', Datetime (clock s)),
                          (''_id'', Oid (oid_of_nat (next_id s)))]]))),
      inserted s ''message'' [(''match_id'', Str m), (''sender_id'', Str sid), (''text'', Str t)])"
  by (simp add: send_message_def create_document_inserted schema_ok_message ObjectId_str_oid
        find_one_def matches_id db_inserted)











section \<open>Mutual likes\<close>

text \<open>
  C1 (as amended). Let \<open>a\<close> and \<open>b\<close> be two distinct profiles, in a store where \<open>b\<close> has not
  liked \<open>a\<close> and that holds at most one match record of the pair. A like of \<open>a\<close> on \<open>b\<close>
  answers \<^verbatim>\<open>match: false\<close> with no match identifier; the like of \<open>b\<close> on \<open>a\<close> that follows
  answers \<^verbatim>\<open>match: true\<close> with a match identifier; afterwards the collection \<^verbatim>\<open>match\<close>
  holds exactly one record of the unordered pair. A record of the pair that already
  exists, with its sides in either order, is found by the lookup and no second one is
  inserted. \<open>a\<close> and \<open>b\<close> are arbitrary, so the same holds when \<open>b\<close> likes first.
\<close>

theorem mutual_like_single_match:
  assumes "a \<noteq> b" and "\<not> has_liked s b a" and "length (matches_of s a b) \<le> 1"
  shows "fst (swipe s a b ''like'')
           = Inr [(''ok'', Bool True), (''match'', Bool False), (''match_id'', Null)]
       \<and> (\<exists>m. fst (swipe (snd (swipe s a b ''like'')) b a ''like'')
                 = Inr [(''ok'', Bool True), (''match'', Bool True), (''match_id'', Str m)])
       \<and> length (matches_of (snd (swipe (snd (swipe s a b ''like'')) b a ''like'')) a b) = 1
       \<and> matches_of (snd (swipe (snd (swipe s a b ''like'')) b a ''like'')) b a
           = matches_of (snd (swipe (snd (swipe s a b ''like'')) b a ''like'')) a b
       \<and> (matches_of s a b \<noteq> [] \<longrightarrow>
            db (snd (swipe (snd (swipe s a b ''like'')) b a ''like'')) ''match'' = db s ''match'')"
proof -
  let ?s1 = "inserted s ''swipe'' [(''user_id'', Str a), (''target_id'', Str b), (''action'', Str ''like'')]"
  have 1: "swipe s a b ''like'' = (Inr (swipe_response False None), ?s1)"
    using assms(1,2) by (rule swipe_first_like)
  have l: "has_liked ?s1 a b" by (simp add: has_liked_inserted)
  have m: "matches_of ?s1 a b = matches_of s a b" by (rule matches_of_inserted_swipe)
  have d: "db ?s1 ''match'' = db s ''match''" by (simp add: db_inserted)
  from swipe_second_like [OF l] obtain x where
    2: "fst (swipe ?s1 b a ''like'') = Inr (swipe_response True (Some x))"
    and 3: "matches_of ?s1 a b \<noteq> [] \<longrightarrow> db (snd (swipe ?s1 b a ''like'')) ''match'' = db ?s1 ''match''"
    and 4: "length (matches_of (snd (swipe ?s1 b a ''like'')) a b) = max 1 (length (matches_of ?s1 a b))"
    by blast
  from 4 assms(3) have 5: "length (matches_of (snd (swipe ?s1 b a ''like'')) a b) = 1"
    by (simp add: m max_def)
  show ?thesis using 2 3 5
    by (auto simp: 1 m d matches_of_sym [of _ b a] swipe_response_def)
qed

theorem mutual_like_single_match_witness:
  "''A'' \<noteq> ''B'' \<and> \<not> has_liked empty_store ''B'' ''A''
   \<and> length (matches_of empty_store ''A'' ''B'') \<le> 1
   \<and> fst (swipe empty_store ''A'' ''B'' ''like'')
       = Inr [(''ok'', Bool True), (''match'', Bool False), (''match_id'', Null)]
   \<and> (\<exists>m. fst (swipe (snd (swipe empty_store ''A'' ''B'' ''like'')) ''B'' ''A'' ''like'')
             = Inr [(''ok'', Bool True), (''match'', Bool True), (''match_id'', Str m)])
   \<and> length (matches_of (snd (swipe (snd (swipe empty_store ''A'' ''B'' ''like''))
                                   ''B'' ''A'' ''like'')) ''A'' ''B'') = 1
   \<and> fst (swipe empty_store ''B'' ''A'' ''like'')
       = Inr [(''ok'', Bool True), (''match'', Bool False), (''match_id'', Null)]
   \<and> length (matches_of (snd (swipe (snd (swipe empty_store ''B'' ''A'' ''like''))
                                   ''A'' ''B'' ''like'')) ''B'' ''A'') = 1
   \<and> db (snd (swipe (snd (swipe
            (inserted empty_store ''match'' [(''user_a'', Str ''A''), (''user_b'', Str ''B'')])
            ''A'' ''B'' ''like'')) ''B'' ''A'' ''like'')) ''match''
       = [[(''user_a'', Str ''A''), (''user_b'', Str ''B''),
           (''created_at'', Datetime 0), (''_id'', Oid (oid_of_nat 0))]]"
  using mutual_like_single_match [of "''A''" "''B''" empty_store]
        mutual_like_single_match [of "''B''" "''A''" empty_store]
        mutual_like_single_match [of "''A''" "''B''"
          "inserted empty_store ''match'' [(''user_a'', Str ''A''), (''user_b'', Str ''B'')]"]
  by (simp add: empty_store_def has_liked_def matches_of_def is_match_of_def inserted_def)

text \<open>
  The claim as the specification states it has no condition on the store. When \<open>B\<close> has
  already liked \<open>A\<close>, the first like of \<open>A\<close> on \<open>B\<close> answers \<^verbatim>\<open>match: true\<close>; and when the
  store holds two match records of the pair, two are there after the two likes.
\<close>

theorem mutual_like_needs_fresh_pair:
  "fst (swipe (inserted empty_store ''swipe''
                 [(''user_id'', Str ''B''), (''target_id'', Str ''A''), (''action'', Str ''like'')])
          ''A'' ''B'' ''like'')
     = Inr [(''ok'', Bool True), (''match'', Bool True),
            (''match_id'', Str (str_oid (oid_of_nat (Suc (Suc 0)))))]
   \<and> length (matches_of
        (snd (swipe (snd (swipe
           (inserted (inserted empty_store ''match'' [(''user_a'', Str ''A''), (''user_b'', Str ''B'')])
              ''match'' [(''user_a'', Str ''B''), (''user_b'', Str ''A'')])
           ''A'' ''B'' ''like'')) ''B'' ''A'' ''like'')) ''A'' ''B'') = 2"
proof -
  let ?s = "inserted empty_store ''swipe''
                 [(''user_id'', Str ''B''), (''target_id'', Str ''A''), (''action'', Str ''like'')]"
  let ?t = "inserted (inserted empty_store ''match'' [(''user_a'', Str ''A''), (''user_b'', Str ''B'')])
              ''match'' [(''user_a'', Str ''B''), (''user_b'', Str ''A'')]"
  let ?t1 = "inserted ?t ''swipe''
               [(''user_id'', Str ''A''), (''target_id'', Str ''B''), (''action'', Str ''like'')]"
  have n: "find (is_match_of ''A'' ''B'') (db ?s ''match'') = None"
    by (simp add: inserted_def empty_store_def)
  have 1: "fst (swipe ?s ''A'' ''B'' ''like'')
     = Inr [(''ok'', Bool True), (''match'', Bool True),
            (''match_id'', Str (str_oid (oid_of_nat (Suc (Suc 0)))))]"
    by (simp add: swipe_like Let_def has_liked_inserted n swipe_response_def)
       (simp add: inserted_def empty_store_def)
  have "\<not> has_liked ?t ''B'' ''A''"
    by (simp add: has_liked_def inserted_def empty_store_def)
  then have f: "swipe ?t ''A'' ''B'' ''like'' = (Inr (swipe_response False None), ?t1)"
    by (intro swipe_first_like) simp_all
  have l: "has_liked ?t1 ''A'' ''B''" by (simp add: has_liked_inserted)
  have c: "length (matches_of ?t1 ''A'' ''B'') = 2"
    by (simp add: matches_of_inserted_swipe)
       (simp add: matches_of_def is_match_of_def inserted_def empty_store_def)
  from swipe_second_like [OF l]
  have "length (matches_of (snd (swipe ?t1 ''B'' ''A'' ''like'')) ''A'' ''B'')
          = max 1 (length (matches_of ?t1 ''A'' ''B''))" by blast
  then have 2: "length (matches_of (snd (swipe (snd (swipe ?t ''A'' ''B'' ''like'')) ''B'' ''A'' ''like''))
                   ''A'' ''B'') = 2"
    by (simp add: f c)
  from 1 2 show ?thesis by blast
qed

section \<open>Sending a message\<close>

text \<open>
  C2. The text of a message must have between 1 and 2000 characters. \<^verbatim>\<open>send_message\<close> itself
  does not look at the text (\<^verbatim>\<open>MessageIn\<close> declares a plain \<^verbatim>\<open>str\<close>); the bound is the one the
  store enforces on insert, as modelled above from the specification. A call with an empty
  text or with more than 2000 characters fails with a validation error and leaves the store
  as it was; a call with a text in range succeeds, appends exactly one record to the
  collection \<^verbatim>\<open>message\<close> and changes no other collection. The answer is the record read
  back by its new identifier: with the identifier the driver generated being new to the
  collection, it is the appended record, with its identifier as text under \<^verbatim>\<open>id\<close> and its
  timestamp in ISO format.
\<close>

theorem send_message_validated:
  "((t = [] \<or> 2000 < length t) \<longrightarrow>
      send_message s m sid t = (Inl (ValidationError ''message''), s))
   \<and> (1 \<le> length t \<and> length t \<le> 2000 \<longrightarrow>
        (\<exists>r. fst (send_message s m sid t) = Inr r)
      \<and> db (snd (send_message s m sid t)) ''message'' =
          db s ''message'' @ [[(''match_id'', Str m), (''sender_id'', Str sid), (''text'', Str t),
                              (''created_at'', Datetime (clock s)),
                              (''_id'', Oid (oid_of_nat (next_id s)))]]
      \<and> (\<forall>c. c \<noteq> ''message'' \<longrightarrow> db (snd (send_message s m sid t)) c = db s c)
      \<and> (\<not> list_ex (has_id (oid_of_nat (next_id s))) (db s ''message'') \<longrightarrow>
            fst (send_message s m sid t) =
              Inr (Some [(''match_id'', Str m), (''sender_id'', Str sid), (''text'', Str t),
                         (''created_at'', IsoFormat (clock s)),
                         (''id'', Str (str_oid (oid_of_nat (next_id s))))])))"
proof (intro conjI impI)
  assume "t = [] \<or> 2000 < length t"
  then have "\<not> (1 \<le> length t \<and> length t \<le> 2000)" by auto
  then show "send_message s m sid t = (Inl (ValidationError ''message''), s)"
    by (rule send_message_rejected)
next
  assume a: "1 \<le> length t \<and> length t \<le> 2000"
  show "\<exists>r. fst (send_message s m sid t) = Inr r"
    by (simp add: send_message_accepted [OF a])
  show "db (snd (send_message s m sid t)) ''message'' =
          db s ''message'' @ [[(''match_id'', Str m), (''sender_id'', Str sid), (''text'', Str t),
                              (''created_at'', Datetime (clock s)),
                              (''_id'', Oid (oid_of_nat (next_id s)))]]"
    by (simp add: send_message_accepted [OF a] db_inserted)
  show "\<forall>c. c \<noteq> ''message'' \<longrightarrow> db (snd (send_message s m sid t)) c = db s c"
    by (simp add: send_message_accepted [OF a] db_inserted)
  assume f: "\<not> list_ex (has_id (oid_of_nat (next_id s))) (db s ''message'')"
  have "find (has_id (oid_of_nat (next_id s)))
                     (db s ''message'' @
                        [[(''match_id'', Str m), (''sender_id'', Str sid), (''text'', Str t),
                          (''created_at'', Datetime (clock s)),
                          (''_id'', Oid (oid_of_nat (next_id s)))]])
        = Some [(''match_id'', Str m), (''sender_id'', Str sid), (''text'', Str t),
                          (''created_at'', Datetime (clock s)),
                          (''_id'', Oid (oid_of_nat (next_id s)))]"
    using f by (rule find_append_last) (simp add: has_id_def)
  then show "fst (send_message s m sid t) =
              Inr (Some [(''match_id'', Str m), (''sender_id'', Str sid), (''text'', Str t),
                         (''created_at'', IsoFormat (clock s)),
                         (''id'', Str (str_oid (oid_of_nat (next_id s))))])"
    by (simp add: send_message_accepted [OF a] to_doc_stored)
qed

theorem send_message_validated_witness:
  "send_message empty_store ''m'' ''A'' [] = (Inl (ValidationError ''message''), empty_store)
   \<and> send_message empty_store ''m'' ''A'' (replicate 2001 CHR ''x'')
       = (Inl (ValidationError ''message''), empty_store)
   \<and> fst (send_message empty_store ''m'' ''A'' ''hi'')
       = Inr (Some [(''match_id'', Str ''m''), (''sender_id'', Str ''A''), (''text'', Str ''hi''),
                    (''created_at'', IsoFormat 0), (''id'', Str (str_oid (oid_of_nat 0)))])
   \<and> db (snd (send_message empty_store ''m'' ''A'' ''hi'')) ''message''
       = [[(''match_id'', Str ''m''), (''sender_id'', Str ''A''), (''text'', Str ''hi''),
           (''created_at'', Datetime 0), (''_id'', Oid (oid_of_nat 0))]]"
  using send_message_validated [of "[]" empty_store "''m''" "''A''"]
        send_message_validated [of "replicate 2001 CHR ''x''" empty_store "''m''" "''A''"]
        send_message_validated [of "''hi''" empty_store "''m''" "''A''"]
  by (simp add: empty_store_def)

section \<open>Requesting a code\<close>

text \<open>
  C3 (as amended). For every email, \<^verbatim>\<open>request_otp\<close> draws a number from 100000 to 999999 and
  answers with its decimal text, which has six digits of which the first is not 0: codes
  with a leading zero do not occur. The draw is uniform: each number from 100000 to 999999
  comes from exactly one of the 900000 equally likely draws of the generator. The call
  appends exactly one record to the collection \<^verbatim>\<open>otp\<close>, holding the email, that code, the
  time of the insert and a new identifier, and leaves every other collection as it was.
\<close>

theorem request_otp_six_digits:
  "(\<exists>r. 100000 \<le> r \<and> r \<le> 999999 \<and> randint 100000 999999 u = Inr r
        \<and> fst (request_otp s u email) = Inr [(''sent'', Bool True), (''code'', Str (str_int r))]
        \<and> length (str_int r) = 6 \<and> list_all is_digit (str_int r) \<and> hd (str_int r) \<noteq> CHR ''0''
        \<and> db (snd (request_otp s u email)) ''otp'' =
            db s ''otp'' @ [[(''email'', Str email), (''code'', Str (str_int r)),
                            (''created_at'', Datetime (clock s)),
                            (''_id'', Oid (oid_of_nat (next_id s)))]])
   \<and> (\<forall>c. c \<noteq> ''otp'' \<longrightarrow> db (snd (request_otp s u email)) c = db s c)
   \<and> (\<forall>r. 100000 \<le> r \<and> r \<le> 999999 \<longrightarrow>
          (\<exists>!v. v < 900000 \<and> randint 100000 999999 v = Inr r))"
proof -
  let ?r = "100000 + int (u mod 900000)"
  have g: "100000 \<le> ?r \<and> ?r \<le> 999999" by (rule randint_range)
  then have d: "length (str_int ?r) = 6 \<and> list_all is_digit (str_int ?r)
                 \<and> hd (str_int ?r) \<noteq> CHR ''0''"
    by (intro str_int_six) simp_all
  have 1: "\<exists>r. 100000 \<le> r \<and> r \<le> 999999 \<and> randint 100000 999999 u = Inr r
        \<and> fst (request_otp s u email) = Inr [(''sent'', Bool True), (''code'', Str (str_int r))]
        \<and> length (str_int r) = 6 \<and> list_all is_digit (str_int r) \<and> hd (str_int r) \<noteq> CHR ''0''
        \<and> db (snd (request_otp s u email)) ''otp'' =
            db s ''otp'' @ [[(''email'', Str email), (''code'', Str (str_int r)),
                            (''created_at'', Datetime (clock s)),
                            (''_id'', Oid (oid_of_nat (next_id s)))]]"
    using g d by (intro exI [of _ ?r]) (simp add: request_otp_eq randint_code)
  have 2: "\<forall>c. c \<noteq> ''otp'' \<longrightarrow> db (snd (request_otp s u email)) c = db s c"
    by (simp add: request_otp_eq)
  have 3: "\<forall>r. 100000 \<le> r \<and> r \<le> 999999 \<longrightarrow>
          (\<exists>!v. v < 900000 \<and> randint 100000 999999 v = Inr r)"
    using randint_unique by blast
  from 1 2 3 show ?thesis by blast
qed

theorem request_otp_six_digits_witness:
  "fst (request_otp empty_store 23456 ''a@b.c'')
       = Inr [(''sent'', Bool True), (''code'', Str (str_int 123456))]
   \<and> hd (str_int 123456) \<noteq> CHR ''0''
   \<and> db (snd (request_otp empty_store 23456 ''a@b.c'')) ''otp'' =
        [[(''email'', Str ''a@b.c''), (''code'', Str (str_int 123456)),
          (''created_at'', Datetime 0), (''_id'', Oid (oid_of_nat 0))]]
   \<and> (\<exists>!v. v < 900000 \<and> randint 100000 999999 v = Inr 123456)"
proof -
  from request_otp_six_digits [of 23456 empty_store "''a@b.c''"]
  obtain r where r: "randint 100000 999999 23456 = Inr r"
    and f: "fst (request_otp empty_store 23456 ''a@b.c'')
              = Inr [(''sent'', Bool True), (''code'', Str (str_int r))]"
    and h: "hd (str_int r) \<noteq> CHR ''0''"
    and d: "db (snd (request_otp empty_store 23456 ''a@b.c'')) ''otp'' =
            db empty_store ''otp'' @ [[(''email'', Str ''a@b.c''), (''code'', Str (str_int r)),
                            (''created_at'', Datetime (clock empty_store)),
                            (''_id'', Oid (oid_of_nat (next_id empty_store)))]]"
    and u: "\<forall>r. 100000 \<le> r \<and> r \<le> 999999 \<longrightarrow>
          (\<exists>!v. v < 900000 \<and> randint 100000 999999 v = Inr r)"
    by blast
  from r have e: "r = 123456" by (simp add: randint_code)
  from u have "\<exists>!v. v < 900000 \<and> randint 100000 999999 v = Inr 123456" by simp
  with f h d show ?thesis by (simp add: e empty_store_def)
qed

text \<open>
  The claim as the specification states it allows leading zeros, so that \<^verbatim>\<open>000000\<close> would be
  a possible code. No draw gives it.
\<close>

theorem request_otp_no_leading_zero:
  "\<not> (\<exists>u. fst (request_otp empty_store u ''a@b.c'')
            = Inr [(''sent'', Bool True), (''code'', Str ''000000'')])"
proof
  assume "\<exists>u. fst (request_otp empty_store u ''a@b.c'')
            = Inr [(''sent'', Bool True), (''code'', Str ''000000'')]"
  then obtain u where "fst (request_otp empty_store u ''a@b.c'')
            = Inr [(''sent'', Bool True), (''code'', Str ''000000'')]" by blast
  then have e: "str_int (100000 + int (u mod 900000)) = ''000000''"
    by (simp add: request_otp_eq)
  have "100000 \<le> 100000 + int (u mod 900000) \<and> 100000 + int (u mod 900000) \<le> 999999"
    by (rule randint_range)
  then have "hd (str_int (100000 + int (u mod 900000))) \<noteq> CHR ''0''"
    using str_int_six [of "100000 + int (u mod 900000)"] by blast
  with e show False by simp
qed

section \<open>Verifying a code\<close>

text \<open>
  C4. \<^verbatim>\<open>verify_otp\<close> compares the supplied code with one record only, the newest of the email.
  When the collection \<^verbatim>\<open>otp\<close> holds no record of the email the call fails with 400 "Invalid
  code". When \<open>d\<close> is the newest record of the email (every other record of the email has an
  earlier timestamp), the call fails with 400 "Invalid code" if the code of \<open>d\<close> is not the
  supplied text, and succeeds if it is; the codes of the older records play no part, so a
  code that is only the code of an older record is refused. A refused call leaves the store
  as it was.
\<close>

theorem verify_otp_newest_only:
  "(find_docs s ''otp'' (Eq ''email'' (Str e)) = [] \<longrightarrow>
      verify_otp s e c = (Inl (HTTPException 400 ''Invalid code''), s))
   \<and> (d \<in> set (find_docs s ''otp'' (Eq ''email'' (Str e)))
       \<and> (\<forall>x \<in> set (find_docs s ''otp'' (Eq ''email'' (Str e))).
             x \<noteq> d \<longrightarrow> created_at x < created_at d) \<longrightarrow>
        (map_of d ''code'' \<noteq> Some (Str c) \<longrightarrow>
           verify_otp s e c = (Inl (HTTPException 400 ''Invalid code''), s))
      \<and> (map_of d ''code'' = Some (Str c) \<longrightarrow> (\<exists>r. fst (verify_otp s e c) = Inr r)))"
proof (intro conjI impI)
  assume "find_docs s ''otp'' (Eq ''email'' (Str e)) = []"
  then have "\<not> otp_ok s e c" by (rule otp_ok_none)
  then show "verify_otp s e c = (Inl (HTTPException 400 ''Invalid code''), s)"
    by (simp add: verify_otp_eq)
next
  assume a: "d \<in> set (find_docs s ''otp'' (Eq ''email'' (Str e)))
       \<and> (\<forall>x \<in> set (find_docs s ''otp'' (Eq ''email'' (Str e))).
             x \<noteq> d \<longrightarrow> created_at x < created_at d)"
    and n: "map_of d ''code'' \<noteq> Some (Str c)"
  from a have "otp_ok s e c = (map_of d ''code'' = Some (Str c))"
    by (intro otp_ok_newest) blast+
  with n show "verify_otp s e c = (Inl (HTTPException 400 ''Invalid code''), s)"
    by (simp add: verify_otp_eq)
next
  assume a: "d \<in> set (find_docs s ''otp'' (Eq ''email'' (Str e)))
       \<and> (\<forall>x \<in> set (find_docs s ''otp'' (Eq ''email'' (Str e))).
             x \<noteq> d \<longrightarrow> created_at x < created_at d)"
    and n: "map_of d ''code'' = Some (Str c)"
  from a have "otp_ok s e c = (map_of d ''code'' = Some (Str c))"
    by (intro otp_ok_newest) blast+
  with n show "\<exists>r. fst (verify_otp s e c) = Inr r"
    by (simp add: verify_otp_eq split: option.split)
qed

theorem verify_otp_newest_only_witness:
  "verify_otp empty_store ''a@b.c'' ''111111'' = (Inl (HTTPException 400 ''Invalid code''), empty_store)
   \<and> verify_otp
        (inserted (inserted empty_store ''otp'' [(''email'', Str ''a@b.c''), (''code'', Str ''111111'')])
           ''otp'' [(''email'', Str ''a@b.c''), (''code'', Str ''222222'')])
        ''a@b.c'' ''111111''
      = (Inl (HTTPException 400 ''Invalid code''),
         inserted (inserted empty_store ''otp'' [(''email'', Str ''a@b.c''), (''code'', Str ''111111'')])
           ''otp'' [(''email'', Str ''a@b.c''), (''code'', Str ''222222'')])
   \<and> (\<exists>r. fst (verify_otp
        (inserted (inserted empty_store ''otp'' [(''email'', Str ''a@b.c''), (''code'', Str ''111111'')])
           ''otp'' [(''email'', Str ''a@b.c''), (''code'', Str ''222222'')])
        ''a@b.c'' ''222222'') = Inr r)"
proof -
  let ?s = "inserted (inserted empty_store ''otp'' [(''email'', Str ''a@b.c''), (''code'', Str ''111111'')])
           ''otp'' [(''email'', Str ''a@b.c''), (''code'', Str ''222222'')]"
  let ?old = "[(''email'', Str ''a@b.c''), (''code'', Str ''111111''), (''created_at'', Datetime 0),
               (''_id'', Oid (oid_of_nat 0))]"
  let ?new = "[(''email'', Str ''a@b.c''), (''code'', Str ''222222''), (''created_at'', Datetime 1),
               (''_id'', Oid (oid_of_nat 1))]"
  have f: "find_docs ?s ''otp'' (Eq ''email'' (Str ''a@b.c'')) = [?old, ?new]"
    by (simp add: find_docs_def inserted_def empty_store_def)
  have e: "find_docs empty_store ''otp'' (Eq ''email'' (Str ''a@b.c'')) = []"
    by (simp add: find_docs_def empty_store_def)
  have c: "created_at ?old < created_at ?new" by (simp add: created_at_def)
  have h: "?new \<in> set (find_docs ?s ''otp'' (Eq ''email'' (Str ''a@b.c'')))
       \<and> (\<forall>x \<in> set (find_docs ?s ''otp'' (Eq ''email'' (Str ''a@b.c''))).
             x \<noteq> ?new \<longrightarrow> created_at x < created_at ?new)"
    unfolding f using c by simp
  have 1: "verify_otp empty_store ''a@b.c'' ''111111''
             = (Inl (HTTPException 400 ''Invalid code''), empty_store)"
    using verify_otp_newest_only [of empty_store "''a@b.c''" "''111111''"] e by blast
  have 2: "verify_otp ?s ''a@b.c'' ''111111'' = (Inl (HTTPException 400 ''Invalid code''), ?s)"
    using verify_otp_newest_only [of ?s "''a@b.c''" "''111111''" ?new] h by simp
  have 3: "\<exists>r. fst (verify_otp ?s ''a@b.c'' ''222222'') = Inr r"
    using verify_otp_newest_only [of ?s "''a@b.c''" "''222222''" ?new] h by simp
  from 1 2 3 show ?thesis by blast
qed

text \<open>
  C5. Take a verification that succeeds. When no profile has the email, exactly one profile
  is appended, with the email and with \<^verbatim>\<open>name\<close> the part of the email before the first
  \<^verbatim>\<open>@\<close>, and the answer carries its new identifier. When a profile has the email, the store
  is left as it was and the answer carries the identifier of the first such profile. In
  both cases the same verification, run again on the store the first one left, gives the
  same answer, hence the same \<^verbatim>\<open>profile_id\<close>, and creates nothing.
\<close>

theorem verify_otp_profile_once:
  assumes "fst (verify_otp s e c) = Inr r"
  shows "(\<not> list_ex (has_email e) (db s ''profile'') \<longrightarrow>
            db (snd (verify_otp s e c)) ''profile'' =
              db s ''profile'' @ [[(''email'', Str e), (''name'', Str (local_part e)),
                                  (''created_at'', Datetime (clock s)),
                                  (''_id'', Oid (oid_of_nat (next_id s)))]]
            \<and> r = [(''ok'', Bool True), (''profile_id'', Str (str_oid (oid_of_nat (next_id s))))])
       \<and> (list_ex (has_email e) (db s ''profile'') \<longrightarrow>
            snd (verify_otp s e c) = s
            \<and> (\<exists>x. find (has_email e) (db s ''profile'') = Some x
                  \<and> r = [(''ok'', Bool True), (''profile_id'', Str (str_val (map_of x ''_id'')))]))
       \<and> verify_otp (snd (verify_otp s e c)) e c = (Inr r, snd (verify_otp s e c))
       \<and> (\<forall>l rest. CHR ''@'' \<notin> set l \<longrightarrow> local_part (l @ CHR ''@'' # rest) = l)"
proof -
  have ok: "otp_ok s e c" using assms by (rule verify_otp_success)
  show ?thesis
  proof (cases "list_ex (has_email e) (db s ''profile'')")
    case True
    from verify_otp_existing [OF ok True] obtain x where
      x: "find (has_email e) (db s ''profile'') = Some x"
      and v: "verify_otp s e c =
             (Inr [(''ok'', Bool True), (''profile_id'', Str (str_val (map_of x ''_id'')))], s)"
      by blast
    from assms v have r: "r = [(''ok'', Bool True), (''profile_id'', Str (str_val (map_of x ''_id'')))]"
      by simp
    show ?thesis using True x by (simp add: v r local_part_split)
  next
    case False
    note v = verify_otp_new [OF ok False] and w = verify_otp_again [OF ok False]
    from assms v have r: "r = [(''ok'', Bool True), (''profile_id'', Str (str_oid (oid_of_nat (next_id s))))]"
      by simp
    show ?thesis using False by (simp add: v w r db_inserted local_part_split)
  qed
qed

theorem verify_otp_profile_once_witness:
  "fst (verify_otp (inserted empty_store ''otp'' [(''email'', Str ''ann@x.org''), (''code'', Str ''123456'')])
          ''ann@x.org'' ''123456'')
     = Inr [(''ok'', Bool True), (''profile_id'', Str (str_oid (oid_of_nat 1)))]
   \<and> db (snd (verify_otp (inserted empty_store ''otp'' [(''email'', Str ''ann@x.org''), (''code'', Str ''123456'')])
          ''ann@x.org'' ''123456'')) ''profile''
     = [[(''email'', Str ''ann@x.org''), (''name'', Str ''ann''),
         (''created_at'', Datetime 1), (''_id'', Oid (oid_of_nat 1))]]
   \<and> fst (verify_otp (snd (verify_otp (inserted empty_store ''otp'' [(''email'', Str ''ann@x.org''), (''code'', Str ''123456'')])
          ''ann@x.org'' ''123456'')) ''ann@x.org'' ''123456'')
     = Inr [(''ok'', Bool True), (''profile_id'', Str (str_oid (oid_of_nat 1)))]
   \<and> db (snd (verify_otp (snd (verify_otp (inserted empty_store ''otp'' [(''email'', Str ''ann@x.org''), (''code'', Str ''123456'')])
          ''ann@x.org'' ''123456'')) ''ann@x.org'' ''123456'')) ''profile''
     = [[(''email'', Str ''ann@x.org''), (''name'', Str ''ann''),
         (''created_at'', Datetime 1), (''_id'', Oid (oid_of_nat 1))]]"
proof -
  let ?s = "inserted empty_store ''otp'' [(''email'', Str ''ann@x.org''), (''code'', Str ''123456'')]"
  let ?r = "[(''ok'', Bool True), (''profile_id'', Str (str_oid (oid_of_nat 1)))]"
  have ok: "otp_ok ?s ''ann@x.org'' ''123456''"
    by (simp add: otp_ok_def find_docs_def inserted_def empty_store_def limit_docs_def sort_desc_def)
  have np: "\<not> list_ex (has_email ''ann@x.org'') (db ?s ''profile'')"
    by (simp add: inserted_def empty_store_def)
  have f: "fst (verify_otp ?s ''ann@x.org'' ''123456'') = Inr ?r"
    using ok np by (simp add: verify_otp_new inserted_def empty_store_def)
  have l: "local_part ''ann@x.org'' = ''ann''" by (simp add: local_part_def)
  from verify_otp_profile_once [OF f] np
  have a: "db (snd (verify_otp ?s ''ann@x.org'' ''123456'')) ''profile'' =
              db ?s ''profile'' @ [[(''email'', Str ''ann@x.org''), (''name'', Str (local_part ''ann@x.org'')),
                                  (''created_at'', Datetime (clock ?s)),
                                  (''_id'', Oid (oid_of_nat (next_id ?s)))]]"
    and b: "verify_otp (snd (verify_otp ?s ''ann@x.org'' ''123456'')) ''ann@x.org'' ''123456''
              = (Inr ?r, snd (verify_otp ?s ''ann@x.org'' ''123456''))"
    by blast+
  from a have a': "db (snd (verify_otp ?s ''ann@x.org'' ''123456'')) ''profile'' =
       [[(''email'', Str ''ann@x.org''), (''name'', Str ''ann''),
         (''created_at'', Datetime 1), (''_id'', Oid (oid_of_nat 1))]]"
    by (simp add: l inserted_def empty_store_def)
  show ?thesis using f a' b by simp
qed

section \<open>Updating a profile\<close>

text \<open>
  C6 (as amended). When the request sets no field, \<^verbatim>\<open>update_me\<close> answers
  \<^verbatim>\<open>{"updated": false}\<close>, which is not an error, and the store is left as it was: no write
  happens. Whatever the request, every stored profile keeps every field that the request
  did not set, and the other collections are untouched. When the request sets at least
  one field, an age it sets fits a signed integer of 8 bytes, and the identifier is that
  of a stored profile \<open>d\<close>, the profile is replaced in place by \<open>d'\<close>, in which each of the
  eight fields of \<^verbatim>\<open>ProfileUpdate\<close> that the request set has the value of the request and
  each one it did not set is as in \<open>d\<close>; every other key of the document (the email, the
  identifier, the timestamp) is as in \<open>d\<close>, and the answer is \<open>d'\<close>. When the age does not
  fit, the driver refuses the write with \<^verbatim>\<open>OverflowError\<close> and the store is left as it was.
\<close>

theorem update_me_sparse:
  "(\<not> some_field_set payload \<longrightarrow>
      update_me s p payload = (Inr (Some [(''updated'', Bool False)]), s))
   \<and> list_all2 (\<lambda>d d'. \<forall>k. \<not> field_is_set payload k \<longrightarrow> map_of d' k = map_of d k)
        (db s ''profile'') (db (snd (update_me s p payload)) ''profile'')
   \<and> (\<forall>c. c \<noteq> ''profile'' \<longrightarrow> db (snd (update_me s p payload)) c = db s c)
   \<and> (some_field_set payload \<and> \<not> age_fits payload \<and> ObjectId p = Inr i \<longrightarrow>
        update_me s p payload = (Inl OverflowError, s))
   \<and> (some_field_set payload \<and> age_fits payload \<and> ObjectId p = Inr i
        \<and> db s ''profile'' = xs @ d # ys \<and> \<not> list_ex (has_id i) xs \<and> has_id i d \<longrightarrow>
      (\<exists>d'. db (snd (update_me s p payload)) ''profile'' = xs @ d' # ys
         \<and> fst (update_me s p payload) = Inr (to_doc (Some d'))
         \<and> field_applied ''name'' Str (name payload) d d'
         \<and> field_applied ''age'' IntV (age payload) d d'
         \<and> field_applied ''gender'' Str (gender payload) d d'
         \<and> field_applied ''bio'' Str (bio payload) d d'
         \<and> field_applied ''interests'' StrList (interests payload) d d'
         \<and> field_applied ''photos'' StrList (photos payload) d d'
         \<and> field_applied ''location_lat'' FloatV (location_lat payload) d d'
         \<and> field_applied ''location_lng'' FloatV (location_lng payload) d d'
         \<and> (\<forall>k. k \<notin> set [''name'', ''age'', ''gender'', ''bio'', ''interests'', ''photos'',
                            ''location_lat'', ''location_lng''] \<longrightarrow> map_of d' k = map_of d k)))"
proof (intro conjI impI)
  assume "\<not> some_field_set payload"
  then show "update_me s p payload = (Inr (Some [(''updated'', Bool False)]), s)"
    by (rule update_me_empty)
next
  show "list_all2 (\<lambda>d d'. \<forall>k. \<not> field_is_set payload k \<longrightarrow> map_of d' k = map_of d k)
        (db s ''profile'') (db (snd (update_me s p payload)) ''profile'')"
    using update_me_frame [of payload s p] by blast
next
  show "\<forall>c. c \<noteq> ''profile'' \<longrightarrow> db (snd (update_me s p payload)) c = db s c"
    using update_me_frame [of payload s p] by blast
next
  assume "some_field_set payload \<and> \<not> age_fits payload \<and> ObjectId p = Inr i"
  then show "update_me s p payload = (Inl OverflowError, s)"
    by (intro update_me_overflow) blast+
next
  assume a: "some_field_set payload \<and> age_fits payload \<and> ObjectId p = Inr i
        \<and> db s ''profile'' = xs @ d # ys \<and> \<not> list_ex (has_id i) xs \<and> has_id i d"
  let ?d' = "set_fields (model_dump payload) d"
  have e: "update_me s p payload =
           (Inr (to_doc (Some ?d')), s\<lparr>db := (db s)(''profile'' := xs @ ?d' # ys)\<rparr>)"
    using a by (intro update_me_found) blast+
  have f1: "field_applied ''name'' Str (name payload) d ?d'"
    by (simp add: field_applied_def set_fields_model_dump map_of_model_dump split: option.split)
  have f2: "field_applied ''age'' IntV (age payload) d ?d'"
    by (simp add: field_applied_def set_fields_model_dump map_of_model_dump split: option.split)
  have f3: "field_applied ''gender'' Str (gender payload) d ?d'"
    by (simp add: field_applied_def set_fields_model_dump map_of_model_dump split: option.split)
  have f4: "field_applied ''bio'' Str (bio payload) d ?d'"
    by (simp add: field_applied_def set_fields_model_dump map_of_model_dump split: option.split)
  have f5: "field_applied ''interests'' StrList (interests payload) d ?d'"
    by (simp add: field_applied_def set_fields_model_dump map_of_model_dump split: option.split)
  have f6: "field_applied ''photos'' StrList (photos payload) d ?d'"
    by (simp add: field_applied_def set_fields_model_dump map_of_model_dump split: option.split)
  have f7: "field_applied ''location_lat'' FloatV (location_lat payload) d ?d'"
    by (simp add: field_applied_def set_fields_model_dump map_of_model_dump split: option.split)
  have f8: "field_applied ''location_lng'' FloatV (location_lng payload) d ?d'"
    by (simp add: field_applied_def set_fields_model_dump map_of_model_dump split: option.split)
  have o: "\<forall>k. k \<notin> set [''name'', ''age'', ''gender'', ''bio'', ''interests'', ''photos'',
                            ''location_lat'', ''location_lng''] \<longrightarrow> map_of ?d' k = map_of d k"
    by (simp add: set_fields_model_dump map_of_model_dump)
  show "\<exists>d'. db (snd (update_me s p payload)) ''profile'' = xs @ d' # ys
         \<and> fst (update_me s p payload) = Inr (to_doc (Some d'))
         \<and> field_applied ''name'' Str (name payload) d d'
         \<and> field_applied ''age'' IntV (age payload) d d'
         \<and> field_applied ''gender'' Str (gender payload) d d'
         \<and> field_applied ''bio'' Str (bio payload) d d'
         \<and> field_applied ''interests'' StrList (interests payload) d d'
         \<and> field_applied ''photos'' StrList (photos payload) d d'
         \<and> field_applied ''location_lat'' FloatV (location_lat payload) d d'
         \<and> field_applied ''location_lng'' FloatV (location_lng payload) d d'
         \<and> (\<forall>k. k \<notin> set [''name'', ''age'', ''gender'', ''bio'', ''interests'', ''photos'',
                            ''location_lat'', ''location_lng''] \<longrightarrow> map_of d' k = map_of d k)"
    using f1 f2 f3 f4 f5 f6 f7 f8 o
    by (intro exI [of _ ?d']) (simp add: e)
qed

theorem update_me_sparse_witness:
  "update_me (inserted empty_store ''profile'' [(''email'', Str ''a@b.c''), (''name'', Str ''a'')])
     ''not-an-id''
     \<lparr>name = None, age = None, gender = None, bio = None, interests = None,
      photos = None, location_lat = None, location_lng = None\<rparr>
   = (Inr (Some [(''updated'', Bool False)]),
      inserted empty_store ''profile'' [(''email'', Str ''a@b.c''), (''name'', Str ''a'')])
   \<and> (\<exists>d'. db (snd (update_me
                 (inserted empty_store ''profile'' [(''email'', Str ''a@b.c''), (''name'', Str ''a'')])
                 (str_oid (oid_of_nat 0))
                 \<lparr>name = None, age = Some (Some 30), gender = None, bio = None, interests = None,
                  photos = None, location_lat = None, location_lng = None\<rparr>)) ''profile'' = [d']
        \<and> map_of d' ''age'' = Some (IntV 30)
        \<and> map_of d' ''name'' = Some (Str ''a'')
        \<and> map_of d' ''email'' = Some (Str ''a@b.c'')
        \<and> map_of d' ''created_at'' = Some (Datetime 0)
        \<and> map_of d' ''_id'' = Some (Oid (oid_of_nat 0)))
   \<and> (\<exists>d'. db (snd (update_me
                 (inserted empty_store ''profile'' [(''email'', Str ''a@b.c''), (''name'', Str ''a'')])
                 (str_oid (oid_of_nat 0))
                 \<lparr>name = None, age = None, gender = None, bio = Some (Some ''hi''),
                  interests = None, photos = None, location_lat = None,
                  location_lng = None\<rparr>)) ''profile'' = [d']
        \<and> map_of d' ''bio'' = Some (Str ''hi'')
        \<and> map_of d' ''name'' = Some (Str ''a''))"
proof -
  let ?s = "inserted empty_store ''profile'' [(''email'', Str ''a@b.c''), (''name'', Str ''a'')]"
  let ?d = "[(''email'', Str ''a@b.c''), (''name'', Str ''a''), (''created_at'', Datetime 0),
             (''_id'', Oid (oid_of_nat 0))]"
  let ?p = "\<lparr>name = None, age = Some (Some 30), gender = None, bio = None, interests = None,
            photos = None, location_lat = None, location_lng = None\<rparr>"
  let ?q = "\<lparr>name = None, age = None, gender = None, bio = Some (Some ''hi''),
            interests = None, photos = None, location_lat = None, location_lng = None\<rparr>"
  have h1: "some_field_set ?p \<and> age_fits ?p" by (simp add: some_field_set_def age_fits_def)
  have k1: "some_field_set ?q \<and> age_fits ?q" by (simp add: some_field_set_def age_fits_def)
  have h2: "ObjectId (str_oid (oid_of_nat 0)) = Inr (oid_of_nat 0)" by (rule ObjectId_str_oid)
  have h3: "db ?s ''profile'' = [] @ ?d # []" by (simp add: inserted_def empty_store_def)
  have h4: "\<not> list_ex (has_id (oid_of_nat 0)) []" by simp
  have h5: "has_id (oid_of_nat 0) ?d" by (simp add: has_id_def)
  from update_me_sparse [of ?p ?s "str_oid (oid_of_nat 0)" "oid_of_nat 0" "[]" ?d "[]"]
    h1 h2 h3 h4 h5
  obtain d' where d: "db (snd (update_me ?s (str_oid (oid_of_nat 0)) ?p)) ''profile'' = [] @ d' # []"
    and a: "field_applied ''age'' IntV (age ?p) ?d d'"
    and n: "field_applied ''name'' Str (name ?p) ?d d'"
    and o: "\<forall>k. k \<notin> set [''name'', ''age'', ''gender'', ''bio'', ''interests'', ''photos'',
                            ''location_lat'', ''location_lng''] \<longrightarrow> map_of d' k = map_of ?d k"
    by blast
  from o have "map_of d' ''email'' = map_of ?d ''email''"
    and "map_of d' ''created_at'' = map_of ?d ''created_at''"
    and "map_of d' ''_id'' = map_of ?d ''_id''" by simp_all
  with d a n have 2: "\<exists>d'. db (snd (update_me ?s (str_oid (oid_of_nat 0)) ?p)) ''profile'' = [d']
        \<and> map_of d' ''age'' = Some (IntV 30)
        \<and> map_of d' ''name'' = Some (Str ''a'')
        \<and> map_of d' ''email'' = Some (Str ''a@b.c'')
        \<and> map_of d' ''created_at'' = Some (Datetime 0)
        \<and> map_of d' ''_id'' = Some (Oid (oid_of_nat 0))"
    by (intro exI [of _ d']) (simp add: field_applied_def)
  from update_me_sparse [of ?q ?s "str_oid (oid_of_nat 0)" "oid_of_nat 0" "[]" ?d "[]"]
    k1 h2 h3 h4 h5
  obtain e' where d2: "db (snd (update_me ?s (str_oid (oid_of_nat 0)) ?q)) ''profile'' = [] @ e' # []"
    and b2: "field_applied ''bio'' Str (bio ?q) ?d e'"
    and n2: "field_applied ''name'' Str (name ?q) ?d e'"
    by blast
  then have 3: "\<exists>d'. db (snd (update_me ?s (str_oid (oid_of_nat 0)) ?q)) ''profile'' = [d']
        \<and> map_of d' ''bio'' = Some (Str ''hi'')
        \<and> map_of d' ''name'' = Some (Str ''a'')"
    by (intro exI [of _ e']) (simp add: field_applied_def)
  have 1: "update_me ?s ''not-an-id''
     \<lparr>name = None, age = None, gender = None, bio = None, interests = None,
      photos = None, location_lat = None, location_lng = None\<rparr>
   = (Inr (Some [(''updated'', Bool False)]), ?s)"
    using update_me_sparse [of "\<lparr>name = None, age = None, gender = None, bio = None, interests = None,
      photos = None, location_lat = None, location_lng = None\<rparr>" ?s "''not-an-id''"]
    by (simp add: some_field_set_def)
  from 1 2 3 show ?thesis by blast
qed

text \<open>
  The claim as the specification states it has every field of the request applied. A
  request whose age is 9223372036854775808 is refused by the driver and the stored
  profile is left without an age.
\<close>

theorem update_me_age_overflow:
  "update_me (inserted empty_store ''profile'' [(''email'', Str ''a@b.c''), (''name'', Str ''a'')])
     (str_oid (oid_of_nat 0))
     \<lparr>name = None, age = Some (Some 9223372036854775808), gender = None, bio = None,
      interests = None, photos = None, location_lat = None, location_lng = None\<rparr>
   = (Inl OverflowError,
      inserted empty_store ''profile'' [(''email'', Str ''a@b.c''), (''name'', Str ''a'')])"
proof -
  let ?p = "\<lparr>name = None, age = Some (Some 9223372036854775808), gender = None, bio = None,
            interests = None, photos = None, location_lat = None, location_lng = None\<rparr>"
  have 1: "some_field_set ?p" by (simp add: some_field_set_def)
  have 2: "\<not> age_fits ?p" by (simp add: age_fits_def)
  from 1 2 ObjectId_str_oid show ?thesis by (rule update_me_overflow)
qed

section \<open>Recording a swipe\<close>

text \<open>
  C7. A swipe whose action is neither \<^verbatim>\<open>like\<close> nor \<^verbatim>\<open>pass\<close> is refused with the client error
  400 "Invalid action" and leaves the store as it was. A swipe whose action is \<^verbatim>\<open>like\<close> or
  \<^verbatim>\<open>pass\<close> succeeds and appends one record to the collection \<^verbatim>\<open>swipe\<close>, whatever the
  collection already holds, so also when the same swipe was recorded before.
\<close>

theorem swipe_action_checked:
  "(action \<noteq> ''like'' \<and> action \<noteq> ''pass'' \<longrightarrow>
      swipe s p t action = (Inl (HTTPException 400 ''Invalid action''), s))
   \<and> (action = ''like'' \<or> action = ''pass'' \<longrightarrow>
      (\<exists>r. fst (swipe s p t action) = Inr r) \<and>
      db (snd (swipe s p t action)) ''swipe'' =
        db s ''swipe'' @ [[(''user_id'', Str p), (''target_id'', Str t), (''action'', Str action),
                          (''created_at'', Datetime (clock s)),
                          (''_id'', Oid (oid_of_nat (next_id s)))]])"
  using swipe_invalid [of action s p t] swipe_swipes [of action s p t] by blast

theorem swipe_action_checked_witness:
  "swipe empty_store ''A'' ''B'' ''maybe'' = (Inl (HTTPException 400 ''Invalid action''), empty_store)
   \<and> db (snd (swipe (inserted empty_store ''swipe''
                      [(''user_id'', Str ''A''), (''target_id'', Str ''B''), (''action'', Str ''like'')])
               ''A'' ''B'' ''like'')) ''swipe'' =
       [[(''user_id'', Str ''A''), (''target_id'', Str ''B''), (''action'', Str ''like''),
         (''created_at'', Datetime 0), (''_id'', Oid (oid_of_nat 0))],
        [(''user_id'', Str ''A''), (''target_id'', Str ''B''), (''action'', Str ''like''),
         (''created_at'', Datetime 1), (''_id'', Oid (oid_of_nat 1))]]"
  using swipe_action_checked [of "''maybe''" empty_store "''A''" "''B''"]
        swipe_action_checked [of "''like''" "inserted empty_store ''swipe''
                      [(''user_id'', Str ''A''), (''target_id'', Str ''B''), (''action'', Str ''like'')]"
                      "''A''" "''B''"]
  by (simp add: empty_store_def inserted_def)


section \<open>Listing messages\<close>





section \<open>Swiping on oneself\<close>

text \<open>
  C9. A profile may swipe on itself: \<^verbatim>\<open>swipe\<close> does not compare the caller with the target.
  A like of \<open>a\<close> on \<open>a\<close> appends the self-swipe and always answers \<^verbatim>\<open>match: true\<close> with a
  match identifier. When \<open>a\<close> had not liked itself before, the only like of \<open>a\<close> on \<open>a\<close> in the
  store, which is what the lookup for a mutual like finds, is the record the call has
  just appended. After the call a match record of \<open>a\<close> with itself exists; when none existed
  before, the call has created it, with \<^verbatim>\<open>user_a\<close> and \<^verbatim>\<open>user_b\<close> both \<open>a\<close>, and answers with
  its identifier.
\<close>

theorem self_like_matches:
  "\<exists>m. fst (swipe s a a ''like'')
          = Inr [(''ok'', Bool True), (''match'', Bool True), (''match_id'', Str m)]
     \<and> db (snd (swipe s a a ''like'')) ''swipe'' =
          db s ''swipe'' @ [[(''user_id'', Str a), (''target_id'', Str a), (''action'', Str ''like''),
                            (''created_at'', Datetime (clock s)),
                            (''_id'', Oid (oid_of_nat (next_id s)))]]
     \<and> (\<not> has_liked s a a \<longrightarrow>
          likes_of (snd (swipe s a a ''like'')) a a =
            [[(''user_id'', Str a), (''target_id'', Str a), (''action'', Str ''like''),
              (''created_at'', Datetime (clock s)), (''_id'', Oid (oid_of_nat (next_id s)))]])
     \<and> matches_of (snd (swipe s a a ''like'')) a a \<noteq> []
     \<and> (matches_of s a a = [] \<longrightarrow>
          m = str_oid (oid_of_nat (Suc (next_id s))) \<and>
          db (snd (swipe s a a ''like'')) ''match'' =
            db s ''match'' @ [[(''user_a'', Str a), (''user_b'', Str a),
                              (''created_at'', Datetime (Suc (clock s))),
                              (''_id'', Oid (oid_of_nat (Suc (next_id s))))]])"
proof -
  let ?new = "[(''user_id'', Str a), (''target_id'', Str a), (''action'', Str ''like''),
               (''created_at'', Datetime (clock s)), (''_id'', Oid (oid_of_nat (next_id s)))]"
  let ?s1 = "inserted s ''swipe''
               [(''user_id'', Str a), (''target_id'', Str a), (''action'', Str ''like'')]"
  have sw: "db (snd (swipe s a a ''like'')) ''swipe'' = db s ''swipe'' @ [?new]"
    using swipe_swipes [of "''like''" s a a] by simp
  have lk: "\<not> has_liked s a a \<longrightarrow> likes_of (snd (swipe s a a ''like'')) a a = [?new]"
    using likes_of_swipes [OF sw, of a a] by (simp add: likes_of_none)
  show ?thesis
  proof (cases "find (is_match_of a a) (db s ''match'')")
    case None
    then have e: "matches_of s a a = []" using find_matches_of [of a a s] by simp
    have r: "swipe s a a ''like'' =
       (Inr (swipe_response True (Some (str_oid (oid_of_nat (Suc (next_id s)))))),
        inserted ?s1 ''match'' [(''user_a'', Str a), (''user_b'', Str a)])"
      using None by (simp add: swipe_like Let_def has_liked_inserted)
    have m: "matches_of (snd (swipe s a a ''like'')) a a \<noteq> []"
      by (simp add: r matches_of_inserted_match)
    have d: "db (snd (swipe s a a ''like'')) ''match'' =
            db s ''match'' @ [[(''user_a'', Str a), (''user_b'', Str a),
                              (''created_at'', Datetime (Suc (clock s))),
                              (''_id'', Oid (oid_of_nat (Suc (next_id s))))]]"
      by (simp add: r db_inserted next_id_inserted clock_inserted)
    have f: "fst (swipe s a a ''like'') = Inr [(''ok'', Bool True), (''match'', Bool True),
               (''match_id'', Str (str_oid (oid_of_nat (Suc (next_id s)))))]"
      by (simp add: r swipe_response_def)
    from f sw lk m d show ?thesis by blast
  next
    case (Some d)
    then have e: "matches_of s a a \<noteq> []" using find_matches_of [of a a s] by simp
    have r: "swipe s a a ''like'' =
       (Inr (swipe_response True (Some (str_val (map_of d ''_id'')))), ?s1)"
      using Some by (simp add: swipe_like Let_def has_liked_inserted)
    have m: "matches_of (snd (swipe s a a ''like'')) a a \<noteq> []"
      using e by (simp add: r matches_of_inserted_swipe)
    have f: "fst (swipe s a a ''like'') = Inr [(''ok'', Bool True), (''match'', Bool True),
               (''match_id'', Str (str_val (map_of d ''_id'')))]"
      by (simp add: r swipe_response_def)
    from f sw lk m e show ?thesis by blast
  qed
qed

theorem self_like_matches_witness:
  "fst (swipe empty_store ''A'' ''A'' ''like'')
     = Inr [(''ok'', Bool True), (''match'', Bool True),
            (''match_id'', Str (str_oid (oid_of_nat (Suc 0))))]
   \<and> likes_of (snd (swipe empty_store ''A'' ''A'' ''like'')) ''A'' ''A'' =
        [[(''user_id'', Str ''A''), (''target_id'', Str ''A''), (''action'', Str ''like''),
          (''created_at'', Datetime 0), (''_id'', Oid (oid_of_nat 0))]]
   \<and> db (snd (swipe empty_store ''A'' ''A'' ''like'')) ''match'' =
        [[(''user_a'', Str ''A''), (''user_b'', Str ''A''),
          (''created_at'', Datetime (Suc 0)), (''_id'', Oid (oid_of_nat (Suc 0)))]]"
  using self_like_matches [of empty_store "''A''"]
  by (auto simp: empty_store_def has_liked_def matches_of_def)

section \<open>Identifiers that are not ObjectIds\<close>

text \<open>
  C10 (as amended). The conversion \<^verbatim>\<open>ObjectId(profile_id)\<close> accepts a text of exactly 24
  characters that is made of pairs of hexadecimal digits, with ASCII whitespace allowed in
  front of a pair and at the end: every text of 24 hexadecimal digits, but also, say,
  eight pairs each followed by a space. \<^verbatim>\<open>get_me\<close> answers 404 "Profile not found" exactly
  when the conversion accepts the identifier and no stored profile has the identifier it
  gives. For any other text the conversion raises \<^verbatim>\<open>InvalidId\<close> before any lookup; nothing
  catches it, so the caller gets a server error, neither NotFound nor a validation error.
  The same conversion is unguarded in \<^verbatim>\<open>discover\<close> and in \<^verbatim>\<open>update_me\<close>, which reaches it
  whenever the request sets at least one field.
\<close>

theorem invalid_id_is_server_error:
  "(\<not> valid_oid_text p \<longrightarrow>
      get_me s p = Inl (InvalidId p)
      \<and> discover s p limit = Inl (InvalidId p)
      \<and> (some_field_set payload \<longrightarrow> update_me s p payload = (Inl (InvalidId p), s)))
   \<and> (get_me s p = Inl (HTTPException 404 ''Profile not found'')
        \<longleftrightarrow> valid_oid_text p
            \<and> (\<exists>i. ObjectId p = Inr i \<and> \<not> list_ex (has_id i) (db s ''profile'')))
   \<and> (length p = 24 \<and> list_all (\<lambda>c. hex_val c \<noteq> None) p \<longrightarrow> valid_oid_text p)"
proof -
  have 3: "length p = 24 \<and> list_all (\<lambda>c. hex_val c \<noteq> None) p \<longrightarrow> valid_oid_text p"
    using hex_pairs_digits [of p] by (simp add: valid_oid_text_def)
  show ?thesis
  proof (cases "valid_oid_text p")
    case True
    then obtain i where i: "ObjectId p = Inr i" using ObjectId_valid_iff [of p] by blast
    show ?thesis using True 3 by (simp add: get_me_valid [OF i] i)
  next
    case False
    then have e: "ObjectId p = Inl (InvalidId p)" by (rule ObjectId_not_valid)
    show ?thesis using False 3
      by (simp add: e get_me_def discover_def update_me_invalid)
  qed
qed

theorem invalid_id_is_server_error_witness:
  "get_me empty_store ''42'' = Inl (InvalidId ''42'')
   \<and> discover empty_store ''42'' (Some 10) = Inl (InvalidId ''42'')
   \<and> update_me empty_store ''42''
        \<lparr>name = None, age = Some (Some 30), gender = None, bio = None, interests = None,
         photos = None, location_lat = None, location_lng = None\<rparr>
       = (Inl (InvalidId ''42''), empty_store)
   \<and> get_me empty_store ''0123456789abcdef01234567'' = Inl (HTTPException 404 ''Profile not found'')"
proof -
  have v: "ObjectId ''0123456789abcdef01234567'' = Inr (OID ''0123456789abcdef01234567'')"
    by code_simp
  have d: "length ''0123456789abcdef01234567'' = 24
           \<and> list_all (\<lambda>c. hex_val c \<noteq> None) ''0123456789abcdef01234567''"
    by code_simp
  have n: "\<not> valid_oid_text ''42''" by (simp add: valid_oid_text_def)
  have m: "some_field_set \<lparr>name = None, age = Some (Some 30), gender = None, bio = None,
             interests = None, photos = None, location_lat = None, location_lng = None\<rparr>"
    by (simp add: some_field_set_def)
  show ?thesis
    using invalid_id_is_server_error [of "''42''" empty_store "Some 10" "\<lparr>name = None, age = Some (Some 30), gender = None, bio = None, interests = None,
         photos = None, location_lat = None, location_lng = None\<rparr>"]
      invalid_id_is_server_error [of "''0123456789abcdef01234567''" empty_store "Some 10" "\<lparr>name = None, age = None, gender = None, bio = None, interests = None,
         photos = None, location_lat = None, location_lng = None\<rparr>"]
      v d n m
    by (simp add: empty_store_def)
qed

text \<open>
  The claim as the specification states it takes every text that is not 24 hexadecimal
  digits to end in a server error. Eight pairs of digits, each followed by a space, are 24
  characters that the conversion accepts, and \<^verbatim>\<open>get_me\<close> answers NotFound.
\<close>

theorem spaced_id_is_not_found:
  "get_me empty_store ''00 00 00 00 00 00 00 00 '' = Inl (HTTPException 404 ''Profile not found'')"
proof -
  have "ObjectId ''00 00 00 00 00 00 00 00 '' = Inr (OID ''0000000000000000'')"
    by (simp add: ObjectId_def is_space_def hex_val_def hex_digit_def)
  then show ?thesis by (simp add: get_me_valid empty_store_def)
qed

end
